theory Spec2Isabelle
  imports Main
begin

section \<open>Task manager server: due-date extraction, reminder scheduling, delivery\<close>

text \<open>
  A shallow embedding of the server part of the task manager (\<open>server.js\<close>): the local
  due-date extractor \<open>parseInputLocal\<close> and the provider cascade \<open>parseInput\<close>, the
  reminder scheduler (\<open>scheduleReminder\<close>, \<open>cancelReminder\<close> and the timeout callback),
  the push fan-out of \<open>sendReminder\<close>, and the two route handlers that create and update
  tasks.

  JavaScript strings are modelled as \<open>string\<close>: a character is a code unit below 256.
  Time values are \<open>int\<close> milliseconds since the epoch; a \<open>Date\<close> object is an
  \<open>int option\<close>, where \<open>None\<close> is the invalid date (time value NaN). Every third-party
  or platform service whose behaviour is not fixed by the program (the chrono grammar, the
  time zone database, the remote completion services, the date parser of the runtime, the
  mail and push transports) is a field of the record \<open>env\<close>.
\<close>

subsection \<open>Strings\<close>

text \<open>White space as \<open>String.prototype.trim\<close> and the regular expression class \<open>\s\<close>
  see it, on code units below 256: TAB, LF, VT, FF, CR, SPACE and NBSP.\<close>

definition isSpace :: "char \<Rightarrow> bool" where
  "isSpace c = (of_char c \<in> set [9, 10, 11, 12, 13, 32, 160 :: nat])"

text \<open>The regular expression class \<open>\d\<close>.\<close>

definition isDigit :: "char \<Rightarrow> bool" where
  "isDigit c = (c \<in> set ''0123456789'')"

text \<open>\<open>toLowerCase\<close>. The lowered string is only ever matched against ASCII patterns, and
  no character outside ASCII is lowered to an ASCII one, so only the ASCII letters are
  mapped.\<close>

definition toLowerChar :: "char \<Rightarrow> char" where
  "toLowerChar c =
     (case map_of (zip ''ABCDEFGHIJKLMNOPQRSTUVWXYZ'' ''abcdefghijklmnopqrstuvwxyz'') c of
        Some d \<Rightarrow> d
      | None \<Rightarrow> c)"

definition toLowerCase :: "string \<Rightarrow> string" where
  "toLowerCase s = map toLowerChar s"

definition trim :: "string \<Rightarrow> string" where
  "trim s = rev (dropWhile isSpace (rev (dropWhile isSpace s)))"

definition startsWith :: "string \<Rightarrow> string \<Rightarrow> bool" where
  "startsWith s p = (take (length p) s = p)"

text \<open>\<open>s.includes(p)\<close>: \<open>p\<close> occurs in \<open>s\<close> as a substring.\<close>

fun str_includes :: "string \<Rightarrow> string \<Rightarrow> bool" where
  "str_includes [] p = (p = [])"
| "str_includes (c # cs) p = (startsWith (c # cs) p \<or> str_includes cs p)"

text \<open>\<open>s.replace(p, '')\<close> for a string pattern \<open>p\<close>: the first occurrence of \<open>p\<close> is
  removed. The program calls it only with a non-empty \<open>p\<close>.\<close>

fun replace_first :: "string \<Rightarrow> string \<Rightarrow> string" where
  "replace_first [] p = []"
| "replace_first (c # cs) p =
     (if startsWith (c # cs) p then drop (length p) (c # cs) else c # replace_first cs p)"

text \<open>\<open>s.replace(/\s+/g, ' ')\<close>: every maximal run of white space becomes one space.\<close>

function collapse_ws :: "string \<Rightarrow> string" where
  "collapse_ws [] = []"
| "collapse_ws (c # cs) =
     (if isSpace c then CHR '' '' # collapse_ws (dropWhile isSpace cs)
      else c # collapse_ws cs)"
  by pat_completeness auto
termination
  by (relation "measure length") (auto simp: length_dropWhile_le less_Suc_eq_le)

text \<open>\<open>parseInt\<close> on a non-empty run of decimal digits.\<close>

definition digit_val :: "char \<Rightarrow> int" where
  "digit_val c = int (of_char c) - 48"

definition parseInt :: "string \<Rightarrow> int" where
  "parseInt ds = foldl (\<lambda>a c. 10 * a + digit_val c) 0 ds"

subsection \<open>The regular expression \<open>/in (\d+) (hour|hours|minute|minutes|min)/\<close>\<close>

text \<open>
  The alternatives of the unit group, in the order the expression lists them. A
  backtracking matcher takes the first alternative with which the whole expression
  matches; nothing follows the group, so that is the first alternative that is a prefix
  of the remaining text.
\<close>

definition time_units :: "string list" where
  "time_units = [''hour'', ''hours'', ''minute'', ''minutes'', ''min'']"

record regex_match =
  m_text :: string
  m_amount :: string
  m_unit :: string

text \<open>
  A match that starts at the first character of \<open>s\<close>: the literal \<open>in\<close> and a space, the
  longest non-empty run of digits (a shorter run is followed by a digit, never by the
  space the expression wants next), one space, a unit. With the flag \<open>i\<close> (\<open>ci\<close>) the
  letters of the expression match either case.
\<close>

definition inTime_at :: "bool \<Rightarrow> string \<Rightarrow> regex_match option" where
  "inTime_at ci s =
     (let fold_case = (if ci then toLowerCase else (\<lambda>x. x)) in
      if \<not> startsWith (fold_case s) ''in '' then None
      else
        let ds = takeWhile isDigit (drop 3 s);
            r = dropWhile isDigit (drop 3 s)
        in if ds = [] then None
           else (case r of
                   [] \<Rightarrow> None
                 | c # r' \<Rightarrow>
                     if c \<noteq> CHR '' '' then None
                     else (case find (\<lambda>u. startsWith (fold_case r') u) time_units of
                             None \<Rightarrow> None
                           | Some u \<Rightarrow>
                               Some \<lparr>m_text = take (3 + length ds + 1 + length u) s,
                                     m_amount = ds,
                                     m_unit = take (length u) r'\<rparr>)))"

text \<open>The leftmost match, with its index.\<close>

fun inTime_search :: "bool \<Rightarrow> string \<Rightarrow> (nat \<times> regex_match) option" where
  "inTime_search ci [] = None"
| "inTime_search ci (c # cs) =
     (case inTime_at ci (c # cs) of
        Some m \<Rightarrow> Some (0, m)
      | None \<Rightarrow> (case inTime_search ci cs of
                   None \<Rightarrow> None
                 | Some (i, m) \<Rightarrow> Some (Suc i, m)))"

text \<open>\<open>s.replace(/in \d+ (hour|hours|minute|minutes|min)/i, '')\<close>: the leftmost match is
  removed.\<close>

definition inTime_replace :: "string \<Rightarrow> string" where
  "inTime_replace s =
     (case inTime_search True s of
        None \<Rightarrow> s
      | Some (i, m) \<Rightarrow> take i s @ drop (i + length (m_text m)) s)"

subsection \<open>Time values and the calendar of ECMAScript\<close>

definition msPerDay :: int where "msPerDay = 86400000"
definition msPerHour :: int where "msPerHour = 3600000"
definition msPerMinute :: int where "msPerMinute = 60000"
definition msPerSecond :: int where "msPerSecond = 1000"

type_synonym date = "int option"

text \<open>\<open>TimeClip\<close>: a time value beyond 8.64e15 ms from the epoch is no date.\<close>

definition TimeClip :: "int \<Rightarrow> date" where
  "TimeClip t = (if \<bar>t\<bar> \<le> 8640000000000000 then Some t else None)"

definition Day :: "int \<Rightarrow> int" where
  "Day t = t div msPerDay"

definition TimeWithinDay :: "int \<Rightarrow> int" where
  "TimeWithinDay t = t mod msPerDay"

definition DaysInYear :: "int \<Rightarrow> int" where
  "DaysInYear y =
     (if y mod 4 \<noteq> 0 then 365 else if y mod 100 \<noteq> 0 then 366
      else if y mod 400 \<noteq> 0 then 365 else 366)"

definition DayFromYear :: "int \<Rightarrow> int" where
  "DayFromYear y =
     365 * (y - 1970) + (y - 1969) div 4 - (y - 1901) div 100 + (y - 1601) div 400"

text \<open>
  \<open>YearFromTime\<close> is the largest year whose first day is not after the day of \<open>t\<close>. It
  is computed from the mean length of a year in the 400 year cycle, which is off by at
  most one year (lemmas \<open>YearFromDay_lower\<close> and \<open>YearFromDay_upper\<close> below).
\<close>

definition YearFromDay :: "int \<Rightarrow> int" where
  "YearFromDay d =
     (let y = 1970 + (400 * d) div 146097 in
      if d < DayFromYear y then y - 1
      else if DayFromYear (y + 1) \<le> d then y + 1
      else y)"

definition YearFromTime :: "int \<Rightarrow> int" where
  "YearFromTime t = YearFromDay (Day t)"

definition InLeapYear :: "int \<Rightarrow> int" where
  "InLeapYear t = (if DaysInYear (YearFromTime t) = 366 then 1 else 0)"

definition DayWithinYear :: "int \<Rightarrow> int" where
  "DayWithinYear t = Day t - DayFromYear (YearFromTime t)"

text \<open>The number of days of a year before its month \<open>m\<close> (0 is January); \<open>l\<close> is 1 in a
  leap year.\<close>

definition month_start :: "int \<Rightarrow> int \<Rightarrow> int" where
  "month_start m l =
     (if m = 0 then 0 else if m = 1 then 31 else if m = 2 then 59 + l
      else if m = 3 then 90 + l else if m = 4 then 120 + l else if m = 5 then 151 + l
      else if m = 6 then 181 + l else if m = 7 then 212 + l else if m = 8 then 243 + l
      else if m = 9 then 273 + l else if m = 10 then 304 + l else 334 + l)"

definition MonthFromTime :: "int \<Rightarrow> int" where
  "MonthFromTime t =
     (let d = DayWithinYear t; l = InLeapYear t in
      if d < 31 then 0 else if d < 59 + l then 1 else if d < 90 + l then 2
      else if d < 120 + l then 3 else if d < 151 + l then 4 else if d < 181 + l then 5
      else if d < 212 + l then 6 else if d < 243 + l then 7 else if d < 273 + l then 8
      else if d < 304 + l then 9 else if d < 334 + l then 10 else 11)"

definition DateFromTime :: "int \<Rightarrow> int" where
  "DateFromTime t = DayWithinYear t - month_start (MonthFromTime t) (InLeapYear t) + 1"

definition HourFromTime :: "int \<Rightarrow> int" where
  "HourFromTime t = (t div msPerHour) mod 24"

definition MinFromTime :: "int \<Rightarrow> int" where
  "MinFromTime t = (t div msPerMinute) mod 60"

definition SecFromTime :: "int \<Rightarrow> int" where
  "SecFromTime t = (t div msPerSecond) mod 60"

definition msFromTime :: "int \<Rightarrow> int" where
  "msFromTime t = t mod msPerSecond"

text \<open>\<open>MakeDay\<close>: the day number of the first of the month, plus the date less one. A
  month outside 0..11 and a date outside the month carry over.\<close>

definition MakeDay :: "int \<Rightarrow> int \<Rightarrow> int \<Rightarrow> int" where
  "MakeDay year month dt =
     (let ym = year + month div 12; mn = month mod 12 in
      DayFromYear ym + month_start mn (if DaysInYear ym = 366 then 1 else 0) + dt - 1)"

definition MakeTime :: "int \<Rightarrow> int \<Rightarrow> int \<Rightarrow> int \<Rightarrow> int" where
  "MakeTime h m s ms = h * msPerHour + m * msPerMinute + s * msPerSecond + ms"

definition MakeDate :: "int \<Rightarrow> int \<Rightarrow> int" where
  "MakeDate day time = day * msPerDay + time"

subsection \<open>\<open>toISOString\<close>\<close>

definition digit_char :: "int \<Rightarrow> char" where
  "digit_char d = ''0123456789'' ! nat (d mod 10)"

definition pad2 :: "int \<Rightarrow> string" where
  "pad2 n = [digit_char (n div 10), digit_char n]"

definition pad3 :: "int \<Rightarrow> string" where
  "pad3 n = [digit_char (n div 100), digit_char (n div 10), digit_char n]"

definition pad4 :: "int \<Rightarrow> string" where
  "pad4 n = digit_char (n div 1000) # pad3 n"

definition pad6 :: "int \<Rightarrow> string" where
  "pad6 n = digit_char (n div 100000) # digit_char (n div 10000) # pad4 n"

text \<open>Years 0 to 9999 are written with four digits, all others with a sign and six.\<close>

definition iso_year :: "int \<Rightarrow> string" where
  "iso_year y =
     (if 0 \<le> y \<and> y \<le> 9999 then pad4 y
      else if y < 0 then CHR ''-'' # pad6 (- y)
      else CHR ''+'' # pad6 y)"

definition iso_string :: "int \<Rightarrow> string" where
  "iso_string t =
     iso_year (YearFromTime t) @ ''-'' @ pad2 (MonthFromTime t + 1) @ ''-''
       @ pad2 (DateFromTime t) @ ''T'' @ pad2 (HourFromTime t) @ '':''
       @ pad2 (MinFromTime t) @ '':'' @ pad2 (SecFromTime t) @ ''.''
       @ pad3 (msFromTime t) @ ''Z''"

subsection \<open>Errors and the environment\<close>

text \<open>A thrown exception is a value: \<open>Inl\<close> of the error. \<open>ServiceError\<close> stands for
  whatever a third-party call throws or rejects with.\<close>

datatype js_error = RangeError | TypeError | ServiceError

type_synonym 'a result = "js_error + 'a"

text \<open>One result of \<open>chrono.parse\<close>: the matched text (\<open>first.text\<close>) and the date of its
  start (\<open>first.start?.date?.()\<close>), \<open>None\<close> when there is none or it is not a valid
  \<open>Date\<close>.\<close>

record chrono_result =
  c_text :: string
  c_date :: date

text \<open>The object a remote provider's answer parses to: its \<open>title\<close> when that is a
  string, and its \<open>dueDate\<close> when that is a string (\<open>None\<close> for \<open>null\<close> or a missing key).\<close>

record remote_reply =
  r_title :: "string option"
  r_dueDate :: "string option"

text \<open>
  The environment of the server: its configuration, and the services it calls.
  \<^item> \<open>chrono_parse text now\<close> is \<open>chrono.parse(text, now, {forwardDate, timezone})\<close>;
  \<^item> \<open>zonedTimeToUtc\<close> is the function of that name of \<open>date-fns-tz\<close>, at the configured
    default time zone;
  \<^item> \<open>tza_utc t\<close> is the offset of the local time zone of the process at the instant \<open>t\<close>,
    \<open>tza_local t\<close> the offset the runtime chooses for the local wall-clock time \<open>t\<close>;
  \<^item> \<open>Date_parse s\<close> is \<open>new Date(s)\<close> for a string \<open>s\<close>;
  \<^item> \<open>groq_call\<close> and \<open>openai_call\<close> are the request to the completion service up to
    and including \<open>JSON.parse\<close> of the answer: an error for a failed request, a status
    that is not a success, an empty answer or an answer that is not a JSON object;
  \<^item> \<open>PARSER_PROVIDER\<close>, \<open>groqApiKey\<close> (a key is set) and \<open>openai\<close> (the client was
    created) are the configuration of the cascade.
\<close>

record env =
  chrono_parse :: "string \<Rightarrow> int \<Rightarrow> chrono_result list result"
  zonedTimeToUtc :: "int \<Rightarrow> date result"
  tza_utc :: "int \<Rightarrow> int"
  tza_local :: "int \<Rightarrow> int"
  Date_parse :: "string \<Rightarrow> date"
  groq_call :: "string \<Rightarrow> int \<Rightarrow> remote_reply result"
  openai_call :: "string \<Rightarrow> int \<Rightarrow> remote_reply result"
  PARSER_PROVIDER :: string
  groqApiKey :: bool
  openai :: bool

subsection \<open>Local time\<close>

definition LocalTime :: "env \<Rightarrow> int \<Rightarrow> int" where
  "LocalTime e t = t + tza_utc e t"

definition UTC :: "env \<Rightarrow> int \<Rightarrow> int" where
  "UTC e t = t - tza_local e t"

definition getFullYear :: "env \<Rightarrow> int \<Rightarrow> int" where
  "getFullYear e t = YearFromTime (LocalTime e t)"

definition getMonth :: "env \<Rightarrow> int \<Rightarrow> int" where
  "getMonth e t = MonthFromTime (LocalTime e t)"

definition getDate :: "env \<Rightarrow> int \<Rightarrow> int" where
  "getDate e t = DateFromTime (LocalTime e t)"

text \<open>\<open>new Date(year, month, date, hours, minutes, seconds)\<close>, in local time. A year from
  0 to 99 means a year of the twentieth century.\<close>

definition Date_local :: "env \<Rightarrow> int \<Rightarrow> int \<Rightarrow> int \<Rightarrow> int \<Rightarrow> int \<Rightarrow> int \<Rightarrow> date" where
  "Date_local e y m dt h mi s =
     (let yr = (if 0 \<le> y \<and> y \<le> 99 then 1900 + y else y) in
      TimeClip (UTC e (MakeDate (MakeDay yr m dt) (MakeTime h mi s 0))))"

text \<open>\<open>d.setHours(h, m, s, ms)\<close>: the local day of \<open>d\<close> at the given local time.\<close>

definition setHours :: "env \<Rightarrow> date \<Rightarrow> int \<Rightarrow> int \<Rightarrow> int \<Rightarrow> int \<Rightarrow> date" where
  "setHours e d h m s ms =
     (case d of
        None \<Rightarrow> None
      | Some t \<Rightarrow> TimeClip (UTC e (MakeDate (Day (LocalTime e t)) (MakeTime h m s ms))))"

text \<open>\<open>d.toISOString()\<close> throws a \<open>RangeError\<close> on an invalid date.\<close>

definition toISOString :: "date \<Rightarrow> string result" where
  "toISOString d = (case d of None \<Rightarrow> Inl RangeError | Some t \<Rightarrow> Inr (iso_string t))"

subsection \<open>\<open>parseInputLocal\<close>\<close>

record parse_result =
  p_title :: string
  p_dueDate :: "string option"

text \<open>
  The secondary heuristics, the \<open>else\<close> branch of \<open>results.length > 0\<close>. \<open>now\<close> is the
  clock of the server, read by \<open>new Date()\<close>. An exception leaves the block before
  \<open>out\<close> is assigned to.
\<close>

definition heuristics :: "env \<Rightarrow> int \<Rightarrow> parse_result \<Rightarrow> parse_result result" where
  "heuristics e now out =
     (let lower = toLowerCase (p_title out) in
      case inTime_search False lower of
        Some (i, inTimeMatch) \<Rightarrow>
          (let amount = parseInt (m_amount inTimeMatch);
               unit = m_unit inTimeMatch;
               minutes = (if startsWith unit ''hour'' then amount * 60 else amount);
               dueTime = TimeClip (now + minutes * 60 * 1000)
           in case toISOString dueTime of
                Inl err \<Rightarrow> Inl err
              | Inr isoStr \<Rightarrow>
                  Inr \<lparr>p_title = trim (inTime_replace (p_title out)), p_dueDate = Some isoStr\<rparr>)
      | None \<Rightarrow>
          if str_includes lower ''tomorrow'' then
            (case toISOString
                    (Date_local e (getFullYear e now) (getMonth e now) (getDate e now + 1) 9 0 0) of
               Inl err \<Rightarrow> Inl err
             | Inr isoStr \<Rightarrow> Inr (out\<lparr>p_dueDate := Some isoStr\<rparr>))
          else if str_includes lower ''today'' then
            (case toISOString
                    (Date_local e (getFullYear e now) (getMonth e now) (getDate e now) 17 0 0) of
               Inl err \<Rightarrow> Inl err
             | Inr isoStr \<Rightarrow> Inr (out\<lparr>p_dueDate := Some isoStr\<rparr>))
          else if str_includes lower ''next week'' then
            (case toISOString
                    (setHours e (TimeClip (now + 7 * 24 * 60 * 60 * 1000)) 9 0 0 0) of
               Inl err \<Rightarrow> Inl err
             | Inr isoStr \<Rightarrow> Inr (out\<lparr>p_dueDate := Some isoStr\<rparr>))
          else Inr out)"

text \<open>The body of the \<open>try\<close> block: the chrono grammar first, the heuristics when it
  finds nothing.\<close>

definition parseInputLocal_try :: "env \<Rightarrow> int \<Rightarrow> parse_result \<Rightarrow> parse_result result" where
  "parseInputLocal_try e now out =
     (case chrono_parse e (p_title out) now of
        Inl err \<Rightarrow> Inl err
      | Inr results \<Rightarrow>
          (case results of
             first # _ \<Rightarrow>
               (case c_date first of
                  None \<Rightarrow> Inr out
                | Some dt \<Rightarrow>
                    (case zonedTimeToUtc e dt of
                       Inl err \<Rightarrow> Inl err
                     | Inr utc \<Rightarrow>
                         (case toISOString utc of
                            Inl err \<Rightarrow> Inl err
                          | Inr isoStr \<Rightarrow>
                              (let out1 = out\<lparr>p_dueDate := Some isoStr\<rparr> in
                               if c_text first \<noteq> [] then
                                 Inr (out1\<lparr>p_title :=
                                   trim (collapse_ws
                                     (trim (replace_first (p_title out1) (c_text first))))\<rparr>)
                               else Inr out1))))
           | [] \<Rightarrow> heuristics e now out))"

text \<open>The \<open>catch\<close> only logs: after an exception the function returns \<open>out\<close> as it was
  initialised.\<close>

definition parseInputLocal :: "env \<Rightarrow> int \<Rightarrow> string \<Rightarrow> parse_result result" where
  "parseInputLocal e now input =
     (let out = \<lparr>p_title = trim input, p_dueDate = None\<rparr> in
      case parseInputLocal_try e now out of
        Inl err \<Rightarrow> Inr out
      | Inr r \<Rightarrow> Inr r)"

subsection \<open>The remote providers and the cascade\<close>

text \<open>"Validate and normalize", the same in both remote parsers.\<close>

definition normalize_reply :: "env \<Rightarrow> string \<Rightarrow> remote_reply \<Rightarrow> parse_result" where
  "normalize_reply e input parsed =
     \<lparr>p_title =
        (case r_title parsed of
           Some t \<Rightarrow> if trim t \<noteq> [] then trim t else trim input
         | None \<Rightarrow> trim input),
      p_dueDate =
        (case r_dueDate parsed of
           None \<Rightarrow> None
         | Some s \<Rightarrow>
             if s = [] then None
             else (case Date_parse e s of None \<Rightarrow> None | Some t \<Rightarrow> Some (iso_string t)))\<rparr>"

definition parseInputGroq :: "env \<Rightarrow> int \<Rightarrow> string \<Rightarrow> parse_result result" where
  "parseInputGroq e now input =
     (if \<not> groqApiKey e then parseInputLocal e now input
      else (case groq_call e input now of
              Inl err \<Rightarrow> parseInputLocal e now input
            | Inr parsed \<Rightarrow> Inr (normalize_reply e input parsed)))"

definition parseInputOpenAI :: "env \<Rightarrow> int \<Rightarrow> string \<Rightarrow> parse_result result" where
  "parseInputOpenAI e now input =
     (if \<not> openai e then parseInputGroq e now input
      else (case openai_call e input now of
              Inl err \<Rightarrow> parseInputGroq e now input
            | Inr parsed \<Rightarrow> Inr (normalize_reply e input parsed)))"

definition parseInput :: "env \<Rightarrow> int \<Rightarrow> string \<Rightarrow> parse_result result" where
  "parseInput e now input =
     (if PARSER_PROVIDER e = ''openai'' then parseInputOpenAI e now input
      else if PARSER_PROVIDER e = ''groq'' then parseInputGroq e now input
      else if PARSER_PROVIDER e = ''local'' then parseInputLocal e now input
      else if groqApiKey e then parseInputGroq e now input
      else parseInputLocal e now input)"

subsection \<open>Tasks and the state of the server\<close>

text \<open>A property of a JSON request body or of an object: missing (\<open>undefined\<close>),
  \<open>null\<close>, or a value.\<close>

datatype 'a field = Absent | Null | Val 'a

text \<open>Truthiness of a string property: a non-empty string.\<close>

definition truthy :: "string field \<Rightarrow> bool" where
  "truthy f = (case f of Val s \<Rightarrow> s \<noteq> [] | _ \<Rightarrow> False)"

text \<open>A task as the handlers build it and as \<open>getTask\<close> returns it. \<open>dueDate\<close> is \<open>null\<close>
  (\<open>None\<close>) or a string. The time stamps \<open>createdAt\<close> and \<open>updatedAt\<close>, which nothing
  reads, are left out.\<close>

record task =
  task_id :: string
  title :: string
  dueDate :: "string option"
  completed :: bool
  email :: "string field"

text \<open>A timeout armed by \<open>setTimeout\<close>: the task and the due date its callback closes
  over, and the delay.\<close>

record timer =
  t_task :: task
  t_due :: int
  t_delay :: int

text \<open>
  The state of the server process.
  \<^item> \<open>db\<close> is the table \<open>tasks\<close>, a row per task id;
  \<^item> \<open>reminders\<close> is the \<open>Map\<close> of that name, from task id to \<open>Timeout\<close> object; a
    \<open>Timeout\<close> object is the number \<open>setTimeout\<close> gave it;
  \<^item> \<open>timers\<close> holds the timeouts of the runtime that are armed: set, not yet run and
    not cleared; \<open>next_timer\<close> is the next fresh \<open>Timeout\<close>;
  \<^item> \<open>running\<close> holds the callbacks that have started and wait at
    \<open>await sendReminder(task, due)\<close>, with the task they close over;
  \<^item> \<open>delivered\<close> lists the calls of \<open>sendReminder\<close>: the timeout, the task id, the due
    date.
\<close>

record server =
  db :: "string \<rightharpoonup> task"
  reminders :: "string \<rightharpoonup> nat"
  timers :: "nat \<rightharpoonup> timer"
  next_timer :: nat
  running :: "nat \<rightharpoonup> task"
  delivered :: "(nat \<times> string \<times> int) list"

definition init_server :: server where
  "init_server = \<lparr>db = Map.empty, reminders = Map.empty, timers = Map.empty,
     next_timer = 0, running = Map.empty, delivered = []\<rparr>"

subsection \<open>The reminder scheduler\<close>

text \<open>\<open>clearTimeout\<close> disarms a timeout; on one that has run or was cleared it does
  nothing.\<close>

definition clearTimeout :: "nat \<Rightarrow> server \<Rightarrow> server" where
  "clearTimeout tid s = s\<lparr>timers := (timers s)(tid := None)\<rparr>"

definition cancelReminder :: "string \<Rightarrow> server \<Rightarrow> server" where
  "cancelReminder taskId s =
     (case reminders s taskId of
        None \<Rightarrow> s
      | Some existing \<Rightarrow>
          (clearTimeout existing s)\<lparr>reminders := (reminders s)(taskId := None)\<rparr>)"

definition MAX_DELAY :: int where
  "MAX_DELAY = 2 ^ 31 - 1"

text \<open>\<open>setTimeout(callback, delay)\<close> followed by \<open>reminders.set(task.id, timeoutId)\<close>.\<close>

definition arm :: "task \<Rightarrow> int \<Rightarrow> int \<Rightarrow> server \<Rightarrow> server" where
  "arm t due delay s =
     (let timeoutId = next_timer s in
      s\<lparr>timers := (timers s)(timeoutId \<mapsto> \<lparr>t_task = t, t_due = due, t_delay = delay\<rparr>),
        next_timer := Suc timeoutId,
        reminders := (reminders s)(task_id t \<mapsto> timeoutId)\<rparr>)"

text \<open>\<open>scheduleReminder(task, replace)\<close>, with \<open>now\<close> the clock read by \<open>new Date()\<close>. The
  function returns nothing; the model returns the state.\<close>

definition scheduleReminder :: "env \<Rightarrow> int \<Rightarrow> task \<Rightarrow> bool \<Rightarrow> server \<Rightarrow> server" where
  "scheduleReminder e now t replace s =
     (case dueDate t of
        None \<Rightarrow> s
      | Some ds \<Rightarrow>
          if ds = [] \<or> completed t then s
          else
            (case Date_parse e ds of
               None \<Rightarrow> s
             | Some due \<Rightarrow>
                 (let s1 = (if replace then cancelReminder (task_id t) s else s);
                      target = due - 60 * 60 * 1000;
                      delayMs0 = target - now;
                      delayMs1 = (if due > now \<and> delayMs0 \<le> 0 then 5 * 1000 else delayMs0)
                  in if due \<le> now then s1
                     else
                       (let delayMs = min delayMs1 MAX_DELAY
                        in arm t due (max 0 delayMs) s1))))"

text \<open>
  The timeout callback is an \<open>async\<close> function: when the runtime runs it, it calls
  \<open>sendReminder\<close> and waits for it; other handlers of the event loop may run while the
  mail and the push messages are sent. When \<open>sendReminder\<close> has settled, the \<open>finally\<close>
  block deletes the entry of the task in \<open>reminders\<close>. The callback tests nothing
  before it calls \<open>sendReminder\<close>.
\<close>

definition timeout_fires :: "nat \<Rightarrow> server \<Rightarrow> server" where
  "timeout_fires tid s =
     (case timers s tid of
        None \<Rightarrow> s
      | Some tm \<Rightarrow>
          s\<lparr>timers := (timers s)(tid := None),
            running := (running s)(tid \<mapsto> t_task tm),
            delivered := delivered s @ [(tid, task_id (t_task tm), t_due tm)]\<rparr>)"

definition callback_settles :: "nat \<Rightarrow> server \<Rightarrow> server" where
  "callback_settles tid s =
     (case running s tid of
        None \<Rightarrow> s
      | Some t \<Rightarrow>
          s\<lparr>running := (running s)(tid := None),
            reminders := (reminders s)(task_id t := None)\<rparr>)"

text \<open>The timeouts armed for a task id.\<close>

definition armed_for :: "server \<Rightarrow> string \<Rightarrow> nat set" where
  "armed_for s taskId = {tid. \<exists>tm. timers s tid = Some tm \<and> task_id (t_task tm) = taskId}"

text \<open>Every armed timeout is the one \<open>reminders\<close> records for its task, and was handed
  out by the runtime before.\<close>

definition tracked :: "server \<Rightarrow> bool" where
  "tracked s =
     (\<forall>tid tm. timers s tid = Some tm \<longrightarrow>
        reminders s (task_id (t_task tm)) = Some tid \<and> tid < next_timer s)"

subsection \<open>\<open>sendReminder\<close>\<close>

text \<open>A push subscription object. \<open>sub_ref\<close> is the identity of the object, which
  \<open>s !== sub\<close> compares.\<close>

record subscription =
  sub_ref :: nat
  endpoint :: string
  sub_keys :: string

text \<open>The delivery channels: whether a mail transporter and the VAPID keys are
  configured, the default address, and the outcome of each push send (\<open>True\<close>: the
  promise resolves, \<open>False\<close>: it rejects). A mail that fails is only logged.\<close>

record channels =
  transporter :: bool
  DEFAULT_NOTIFY_EMAIL :: "string option"
  vapid :: bool
  sendNotification :: "subscription \<Rightarrow> task \<Rightarrow> int \<Rightarrow> bool"

text \<open>The registry \<open>pushSubscriptions\<close>, and a log of the send attempts.\<close>

record delivery =
  pushSubscriptions :: "subscription list"
  mail_attempts :: "string list"
  push_attempts :: "subscription list"

text \<open>The loop \<open>for (const sub of [...pushSubscriptions])\<close>: the first argument is what
  is left of the copy the loop runs over.\<close>

fun push_loop :: "(subscription \<Rightarrow> bool) \<Rightarrow> subscription list \<Rightarrow> delivery \<Rightarrow> delivery" where
  "push_loop send [] d = d"
| "push_loop send (sub # rest) d =
     (let d1 = d\<lparr>push_attempts := push_attempts d @ [sub]\<rparr> in
      push_loop send rest
        (if send sub then d1
         else d1\<lparr>pushSubscriptions :=
                   filter (\<lambda>s. sub_ref s \<noteq> sub_ref sub) (pushSubscriptions d1)\<rparr>))"

definition sendReminder :: "channels \<Rightarrow> task \<Rightarrow> int \<Rightarrow> delivery \<Rightarrow> delivery" where
  "sendReminder ch t due d =
     (let toEmail = (if truthy (email t) then (case email t of Val a \<Rightarrow> Some a | _ \<Rightarrow> None)
                     else DEFAULT_NOTIFY_EMAIL ch);
          d1 = (case toEmail of
                  Some a \<Rightarrow>
                    if transporter ch \<and> a \<noteq> [] then d\<lparr>mail_attempts := mail_attempts d @ [a]\<rparr>
                    else d
                | None \<Rightarrow> d)
      in if vapid ch \<and> pushSubscriptions d1 \<noteq> []
         then push_loop (\<lambda>sub. sendNotification ch sub t due) (pushSubscriptions d1) d1
         else d1)"

subsection \<open>The routes that create and update a task\<close>

record task_body =
  b_title :: "string field"
  b_dueDate :: "string field"
  b_completed :: "bool option"
  b_email :: "string field"
  b_input :: "string field"

datatype response = Json_task task | Json_error nat string

text \<open>The table. \<open>createTask\<close> rejects when the primary key exists, \<open>updateTask\<close> when
  no row changes. A column holds \<open>NULL\<close> for \<open>undefined\<close>; \<open>getTask\<close> reads the column
  \<open>email\<close> as \<open>row.email || undefined\<close>.\<close>

definition createTask :: "task \<Rightarrow> server \<Rightarrow> (task \<times> server) result" where
  "createTask t s =
     (if task_id t \<in> dom (db s) then Inl ServiceError
      else Inr (t, s\<lparr>db := (db s)(task_id t \<mapsto> t)\<rparr>))"

definition getTask :: "string \<Rightarrow> server \<Rightarrow> task option" where
  "getTask i s =
     (case db s i of
        None \<Rightarrow> None
      | Some row \<Rightarrow> Some (row\<lparr>email := (if truthy (email row) then email row else Absent)\<rparr>))"

definition updateTask :: "string \<Rightarrow> task \<Rightarrow> server \<Rightarrow> server option" where
  "updateTask i updates s =
     (if i \<in> dom (db s) then Some (s\<lparr>db := (db s)(i \<mapsto> updates)\<rparr>) else None)"

text \<open>\<open>x || null\<close> for a string property.\<close>

definition or_null :: "string field \<Rightarrow> string option" where
  "or_null f = (case f of Val v \<Rightarrow> if v \<noteq> [] then Some v else None | _ \<Rightarrow> None)"

text \<open>\<open>POST /api/tasks\<close>. \<open>new_id\<close> is what \<open>uuidv4()\<close> returns.\<close>

definition post_tasks ::
  "env \<Rightarrow> int \<Rightarrow> string \<Rightarrow> task_body \<Rightarrow> server \<Rightarrow> response \<times> server" where
  "post_tasks e now new_id body s =
     (case (if \<not> truthy (b_title body) \<and> truthy (b_input body)
            then (case parseInput e now (case b_input body of Val i \<Rightarrow> i | _ \<Rightarrow> []) of
                    Inl err \<Rightarrow> Inl err
                  | Inr parsed \<Rightarrow>
                      Inr (Val (p_title parsed),
                           (case p_dueDate parsed of
                              Some dd \<Rightarrow> if dd \<noteq> [] then Some dd else None
                            | None \<Rightarrow> None)))
            else Inr (b_title body, or_null (b_dueDate body))) of
        Inl err \<Rightarrow> (Json_error 500 ''Failed to create task'', s)
      | Inr (title1, dueDate1) \<Rightarrow>
          (case title1 of
             Val ttl \<Rightarrow>
               if ttl = [] \<or> trim ttl = [] then (Json_error 400 ''title or input is required'', s)
               else
                 (let t = \<lparr>task_id = new_id, title = trim ttl, dueDate = dueDate1,
                            completed = False,
                            email = (if truthy (b_email body) then b_email body else Absent)\<rparr>
                  in case createTask t s of
                       Inl err \<Rightarrow> (Json_error 500 ''Failed to create task'', s)
                     | Inr (savedTask, s1) \<Rightarrow>
                         (Json_task savedTask, scheduleReminder e now savedTask False s1))
           | _ \<Rightarrow> (Json_error 400 ''title or input is required'', s)))"

text \<open>\<open>PUT /api/tasks/:id\<close>, the values of \<open>nextTitle\<close> and \<open>nextDue\<close>: those of the
  body, or, for a body with a free text, no title and no due date, those parsed from
  the text.\<close>

definition put_next ::
  "env \<Rightarrow> int \<Rightarrow> task_body \<Rightarrow> (string field \<times> string field) result" where
  "put_next e now body =
     (if truthy (b_input body) \<and> \<not> truthy (b_title body) \<and> b_dueDate body = Absent
      then (case parseInput e now (case b_input body of Val inp \<Rightarrow> inp | _ \<Rightarrow> []) of
              Inl err \<Rightarrow> Inl err
            | Inr parsed \<Rightarrow>
                Inr (Val (p_title parsed),
                     (case p_dueDate parsed of Some dd \<Rightarrow> Val dd | None \<Rightarrow> Null)))
      else Inr (b_title body, b_dueDate body))"

text \<open>The object \<open>updates\<close> spread over the existing task. \<open>nextTitle.trim()\<close> throws a
  \<open>TypeError\<close> when the title is \<open>null\<close>.\<close>

definition put_updates ::
  "task \<Rightarrow> task_body \<Rightarrow> string field \<Rightarrow> string field \<Rightarrow> task result" where
  "put_updates existingTask body nextTitle nextDue =
     (case (case nextTitle of
              Absent \<Rightarrow> Inr (title existingTask)
            | Null \<Rightarrow> Inl TypeError
            | Val ttl \<Rightarrow> Inr (trim ttl)) of
        Inl err \<Rightarrow> Inl err
      | Inr title1 \<Rightarrow>
          Inr (existingTask
                 \<lparr>title := title1,
                  dueDate := (case nextDue of
                                Absent \<Rightarrow> dueDate existingTask
                              | Null \<Rightarrow> None
                              | Val dd \<Rightarrow> Some dd),
                  completed := (case b_completed body of
                                  Some c \<Rightarrow> c
                                | None \<Rightarrow> completed existingTask),
                  email := (case b_email body of
                              Absent \<Rightarrow> email existingTask
                            | em \<Rightarrow> em)\<rparr>))"

text \<open>The handler. An exception is answered with 500, a rejection of \<open>updateTask\<close>
  ("Task not found") with 404.\<close>

definition put_task ::
  "env \<Rightarrow> int \<Rightarrow> string \<Rightarrow> task_body \<Rightarrow> server \<Rightarrow> response \<times> server" where
  "put_task e now i body s =
     (case getTask i s of
        None \<Rightarrow> (Json_error 404 ''Task not found'', s)
      | Some existingTask \<Rightarrow>
          (case put_next e now body of
             Inl err \<Rightarrow> (Json_error 500 ''Failed to update task'', s)
           | Inr (nextTitle, nextDue) \<Rightarrow>
               (case put_updates existingTask body nextTitle nextDue of
                  Inl err \<Rightarrow> (Json_error 500 ''Failed to update task'', s)
                | Inr updatedTask \<Rightarrow>
                    (case updateTask i updatedTask s of
                       None \<Rightarrow> (Json_error 404 ''Task not found'', s)
                     | Some s1 \<Rightarrow>
                         (Json_task updatedTask,
                          scheduleReminder e now updatedTask True s1)))))"

subsection \<open>A concrete server\<close>

text \<open>
  An environment in which the definitions can be run: the process runs five hours east
  of UTC, which is also the configured zone (Asia/Karachi, the default, has no daylight
  saving), no remote provider is configured, and the date parser of the runtime knows
  the ISO strings of the examples. The chrono grammar of \<open>ex_env\<close> finds nothing; it
  stands for chrono-node on the texts in which chrono-node finds no date.
\<close>

definition ex_env :: env where
  "ex_env =
     \<lparr>chrono_parse = (\<lambda>txt now. Inr []),
      zonedTimeToUtc = (\<lambda>t. Inr (Some t)),
      tza_utc = (\<lambda>t. 5 * 3600000),
      tza_local = (\<lambda>t. 5 * 3600000),
      Date_parse = map_of
        [(''2024-01-15T14:00:00.000Z'', 1705327200000),
         (''2024-01-15T16:00:00.000Z'', 1705334400000),
         (''2024-01-15T17:00:00.000Z'', 1705338000000),
         (''2024-03-01T00:00:00.000Z'', 1709251200000)],
      groq_call = (\<lambda>txt now. Inl ServiceError),
      openai_call = (\<lambda>txt now. Inl ServiceError),
      PARSER_PROVIDER = ''local'',
      groqApiKey = False,
      openai = False\<rparr>"

text \<open>
  The same environment with the grammar's answer for two texts in which chrono-node
  does find a date. With \<open>forwardDate\<close>, chrono-node reads "tomorrow" as the reference
  time moved by one day, the time of day kept, and "in 2 hours" as the reference time
  moved by two hours; the matched text is the phrase.
\<close>

definition ex_env_grammar :: env where
  "ex_env_grammar = ex_env\<lparr>chrono_parse := (\<lambda>txt now.
       if txt = ''Pay rent tomorrow''
       then Inr [\<lparr>c_text = ''tomorrow'', c_date = Some (now + msPerDay)\<rparr>]
       else if txt = ''Call mom in 2 hours''
       then Inr [\<lparr>c_text = ''in 2 hours'', c_date = Some (now + 2 * msPerHour)\<rparr>]
       else Inr [])\<rparr>"

text \<open>Noon of 15 January 2024, UTC.\<close>

definition ex_now :: int where
  "ex_now = 1705320000000"

definition ex_task :: task where
  "ex_task = \<lparr>task_id = ''t1'', title = ''Call mom'',
     dueDate = Some ''2024-01-15T14:00:00.000Z'', completed = False, email = Absent\<rparr>"

text \<open>A request body with a due date only.\<close>

definition body_due :: "string \<Rightarrow> task_body" where
  "body_due d = \<lparr>b_title = Absent, b_dueDate = Val d, b_completed = None,
     b_email = Absent, b_input = Absent\<rparr>"

text \<open>
  A run of the server. At noon a task due at 14:00 is created: timeout 0 is armed for
  13:00. At 13:00 it runs, and its callback waits for the mail to be sent. While it
  waits, a first \<open>PUT\<close> moves the due date to 16:00 (timeout 1). The callback settles. A
  second \<open>PUT\<close> moves the due date to 17:00 (timeout 2). Later the timeouts 1 and 2 run.
\<close>

definition race_s1 :: server where
  "race_s1 = snd (post_tasks ex_env ex_now ''t1''
      ((body_due ''2024-01-15T14:00:00.000Z'')\<lparr>b_title := Val ''Call mom''\<rparr>) init_server)"

definition race_s2 :: server where
  "race_s2 = timeout_fires 0 race_s1"

definition race_s3 :: server where
  "race_s3 = snd (put_task ex_env (ex_now + 3600100) ''t1''
      (body_due ''2024-01-15T16:00:00.000Z'') race_s2)"

definition race_s4 :: server where
  "race_s4 = callback_settles 0 race_s3"

definition race_s5 :: server where
  "race_s5 = snd (put_task ex_env (ex_now + 3600900) ''t1''
      (body_due ''2024-01-15T17:00:00.000Z'') race_s4)"

definition race_s6 :: server where
  "race_s6 = timeout_fires 2 (timeout_fires 1 race_s5)"

text \<open>Three subscriptions, and a push service that rejects the second.\<close>

definition ex_subs :: "subscription list" where
  "ex_subs =
     [\<lparr>sub_ref = 0, endpoint = ''https://push.example/a'', sub_keys = ''ka''\<rparr>,
      \<lparr>sub_ref = 1, endpoint = ''https://push.example/b'', sub_keys = ''kb''\<rparr>,
      \<lparr>sub_ref = 2, endpoint = ''https://push.example/c'', sub_keys = ''kc''\<rparr>]"

definition ex_channels :: channels where
  "ex_channels = \<lparr>transporter = False, DEFAULT_NOTIFY_EMAIL = None, vapid = True,
     sendNotification = (\<lambda>sub t due. sub_ref sub \<noteq> 1)\<rparr>"

definition ex_delivery :: delivery where
  "ex_delivery = \<lparr>pushSubscriptions = ex_subs, mail_attempts = [], push_attempts = []\<rparr>"

text \<open>A request body with a free text only, and a server that holds the task.\<close>

definition body_input :: "string \<Rightarrow> task_body" where
  "body_input i = \<lparr>b_title = Absent, b_dueDate = Absent, b_completed = None,
     b_email = Absent, b_input = Val i\<rparr>"

definition ex_db :: server where
  "ex_db = init_server\<lparr>db := [''t1'' \<mapsto> ex_task]\<rparr>"

subsection \<open>Wall-clock instants\<close>

text \<open>The instant that the time zone of the process assigns to the local wall-clock
  time \<open>h\<close>:00:00.000 of the local day number \<open>day\<close>.\<close>

definition local_at :: "env \<Rightarrow> int \<Rightarrow> int \<Rightarrow> int" where
  "local_at e day h = UTC e (MakeDate day (MakeTime h 0 0 0))"

section \<open>Properties of the scheduler\<close>

lemma scheduleReminder_eligible:
  assumes "dueDate t = Some ds" and "ds \<noteq> []" and "\<not> completed t"
    and "Date_parse e ds = Some due"
  shows "scheduleReminder e now t replace s =
     (let s1 = (if replace then cancelReminder (task_id t) s else s) in
      if due \<le> now then s1
      else arm t due
             (if due - 3600000 - now \<le> 0 then 5000
              else min (due - 3600000 - now) MAX_DELAY) s1)"
  using assms by (simp add: scheduleReminder_def Let_def MAX_DELAY_def)

lemma cancelReminder_next_timer [simp]: "next_timer (cancelReminder i s) = next_timer s"
  by (simp add: cancelReminder_def clearTimeout_def split: option.split)

lemma cancelReminder_timers_dom: "dom (timers (cancelReminder i s)) \<subseteq> dom (timers s)"
  by (auto simp: cancelReminder_def clearTimeout_def split: option.splits if_splits)

lemma cancelReminder_reminders_dom:
  "dom (reminders (cancelReminder i s)) \<subseteq> dom (reminders s)"
  by (auto simp: cancelReminder_def clearTimeout_def split: option.splits if_splits)

lemma arm_timers:
  "timers (arm t due d s) (next_timer s) = Some \<lparr>t_task = t, t_due = due, t_delay = d\<rparr>"
  by (simp add: arm_def Let_def)

lemma arm_reminders: "reminders (arm t due d s) (task_id t) = Some (next_timer s)"
  by (simp add: arm_def Let_def)

lemmas ex_server_defs =
  ex_env_def ex_now_def ex_task_def init_server_def scheduleReminder_def cancelReminder_def
  clearTimeout_def arm_def MAX_DELAY_def Let_def

text \<open>
  Claim C2. For a task that is not completed and whose due date parses to the instant
  \<open>due\<close>: when \<open>due\<close> is more than an hour after \<open>now\<close>, \<open>scheduleReminder\<close> arms a
  timeout of \<open>due - 1h - now\<close> milliseconds (cut at \<open>MAX_DELAY\<close>) and records it for the
  task; when \<open>due\<close> is later than \<open>now\<close> by at most an hour, it arms a timeout of five
  seconds; when \<open>due\<close> is not after \<open>now\<close>, it arms nothing and adds no entry to
  \<open>reminders\<close>: the state is the one it found (after the cancellation, when \<open>replace\<close> is
  set).
\<close>

theorem c2_schedule_delay:
  assumes "dueDate t = Some ds" and "ds \<noteq> []" and "\<not> completed t"
    and "Date_parse e ds = Some due"
  shows "let s' = scheduleReminder e now t replace s in
     if now + 60 * 60 * 1000 < due then
       timers s' (next_timer s)
         = Some \<lparr>t_task = t, t_due = due,
                 t_delay = min (due - 60 * 60 * 1000 - now) MAX_DELAY\<rparr>
       \<and> reminders s' (task_id t) = Some (next_timer s)
     else if now < due then
       timers s' (next_timer s) = Some \<lparr>t_task = t, t_due = due, t_delay = 5000\<rparr>
       \<and> reminders s' (task_id t) = Some (next_timer s)
     else
       s' = (if replace then cancelReminder (task_id t) s else s)
       \<and> next_timer s' = next_timer s
       \<and> dom (timers s') \<subseteq> dom (timers s)
       \<and> dom (reminders s') \<subseteq> dom (reminders s)"
proof -
  let ?s1 = "if replace then cancelReminder (task_id t) s else s"
  have n: "next_timer ?s1 = next_timer s" by simp
  have dt: "dom (timers ?s1) \<subseteq> dom (timers s)"
    using cancelReminder_timers_dom by simp
  have dr: "dom (reminders ?s1) \<subseteq> dom (reminders s)"
    using cancelReminder_reminders_dom by simp
  show ?thesis
    unfolding scheduleReminder_eligible [OF assms] Let_def
    using arm_timers [of t due _ ?s1] arm_reminders [of t due _ ?s1] n dt dr
    by (auto simp: MAX_DELAY_def)
qed

text \<open>The task due at 14:00: scheduled at noon the timeout is one hour, scheduled at
  13:30 it is five seconds, scheduled at 15:00 nothing is armed.\<close>

theorem c2_schedule_delay_witness:
  "timers (scheduleReminder ex_env ex_now ex_task False init_server) 0
     = Some \<lparr>t_task = ex_task, t_due = 1705327200000, t_delay = 3600000\<rparr>
   \<and> reminders (scheduleReminder ex_env ex_now ex_task False init_server) ''t1'' = Some 0
   \<and> timers (scheduleReminder ex_env (ex_now + 5400000) ex_task False init_server) 0
     = Some \<lparr>t_task = ex_task, t_due = 1705327200000, t_delay = 5000\<rparr>
   \<and> scheduleReminder ex_env (ex_now + 10800000) ex_task False init_server = init_server"
proof -
  have e: "dueDate ex_task = Some ''2024-01-15T14:00:00.000Z''"
      "''2024-01-15T14:00:00.000Z'' \<noteq> []" "\<not> completed ex_task"
      "Date_parse ex_env ''2024-01-15T14:00:00.000Z'' = Some 1705327200000"
    by (simp_all add: ex_task_def ex_env_def)
  show ?thesis
    using c2_schedule_delay [OF e, of ex_now False init_server]
      c2_schedule_delay [OF e, of "ex_now + 5400000" False init_server]
      c2_schedule_delay [OF e, of "ex_now + 10800000" False init_server]
    by (simp add: Let_def ex_now_def init_server_def MAX_DELAY_def ex_task_def)
qed

text \<open>
  Claim C7. The delay of the timeout that \<open>scheduleReminder\<close> arms never exceeds
  \<open>2^31 - 1\<close> milliseconds, and it is \<open>2^31 - 1\<close> whenever \<open>due - 1h - now\<close> is larger: the
  reminder of a task due later than that fires early.
\<close>

theorem c7_delay_clamped:
  assumes "dueDate t = Some ds" and "ds \<noteq> []" and "\<not> completed t"
    and "Date_parse e ds = Some due" and "now < due"
  shows "\<exists>tm. timers (scheduleReminder e now t replace s) (next_timer s) = Some tm
           \<and> t_task tm = t
           \<and> t_delay tm \<le> 2 ^ 31 - 1
           \<and> (2 ^ 31 - 1 < due - 60 * 60 * 1000 - now \<longrightarrow> t_delay tm = 2 ^ 31 - 1)"
proof -
  let ?s1 = "if replace then cancelReminder (task_id t) s else s"
  have n: "next_timer ?s1 = next_timer s" by simp
  show ?thesis
    unfolding scheduleReminder_eligible [OF assms(1-4)] Let_def
    using arm_timers [of t due _ ?s1] n assms(5)
    by (auto simp: MAX_DELAY_def)
qed

text \<open>A task due on 1 March 2024, scheduled on 15 January: 45 days ahead, the timeout
  is 2147483647 ms, less than 25 days.\<close>

theorem c7_delay_clamped_witness:
  "timers (scheduleReminder ex_env ex_now
             (ex_task\<lparr>dueDate := Some ''2024-03-01T00:00:00.000Z''\<rparr>) True init_server) 0
     = Some \<lparr>t_task = ex_task\<lparr>dueDate := Some ''2024-03-01T00:00:00.000Z''\<rparr>,
             t_due = 1709251200000, t_delay = 2147483647\<rparr>"
proof -
  let ?t = "ex_task\<lparr>dueDate := Some ''2024-03-01T00:00:00.000Z''\<rparr>"
  have e: "dueDate ?t = Some ''2024-03-01T00:00:00.000Z''"
      "''2024-03-01T00:00:00.000Z'' \<noteq> []" "\<not> completed ?t"
      "Date_parse ex_env ''2024-03-01T00:00:00.000Z'' = Some 1709251200000"
      "ex_now < 1709251200000"
    by (simp_all add: ex_task_def ex_env_def ex_now_def)
  show ?thesis
    using c7_delay_clamped [OF e, of True init_server]
    by (simp add: ex_server_defs)
qed

lemmas handler_defs =
  post_tasks_def put_task_def put_next_def put_updates_def getTask_def createTask_def
  updateTask_def truthy_def or_null_def trim_def isSpace_def body_due_def

lemma tracked_cancelReminder:
  assumes "tracked s"
  shows "tracked (cancelReminder i s) \<and> armed_for (cancelReminder i s) i = {}
         \<and> reminders (cancelReminder i s) i = None"
  using assms
  by (auto simp: tracked_def cancelReminder_def clearTimeout_def armed_for_def
           split: option.splits if_splits)

lemma tracked_arm:
  assumes "tracked s" and "armed_for s (task_id t) = {}"
  shows "tracked (arm t due d s) \<and> armed_for (arm t due d s) (task_id t) = {next_timer s}"
  using assms
  by (fastforce simp: tracked_def arm_def armed_for_def Let_def split: if_splits)

lemma reschedule_tracked:
  assumes "tracked s" and "dueDate t = Some ds" and "ds \<noteq> []" and "\<not> completed t"
    and "Date_parse e ds = Some due" and "now < due"
  shows "tracked (scheduleReminder e now t True s)"
    and "armed_for (scheduleReminder e now t True s) (task_id t) = {next_timer s}"
    and "next_timer (scheduleReminder e now t True s) = Suc (next_timer s)"
    and "reminders (scheduleReminder e now t True s) (task_id t) = Some (next_timer s)"
    and "\<exists>d. timers (scheduleReminder e now t True s) (next_timer s)
            = Some \<lparr>t_task = t, t_due = due, t_delay = d\<rparr>"
proof -
  let ?c = "cancelReminder (task_id t) s"
  obtain d where eq: "scheduleReminder e now t True s = arm t due d ?c"
    using scheduleReminder_eligible [OF assms(2-5), of now True s] assms(6)
    by (simp add: Let_def)
  have c: "tracked ?c" "armed_for ?c (task_id t) = {}"
    using tracked_cancelReminder [OF assms(1)] by simp_all
  show "tracked (scheduleReminder e now t True s)"
    and "armed_for (scheduleReminder e now t True s) (task_id t) = {next_timer s}"
    using tracked_arm [OF c, of due d] by (simp_all add: eq)
  show "next_timer (scheduleReminder e now t True s) = Suc (next_timer s)"
    by (simp add: eq arm_def Let_def)
  show "reminders (scheduleReminder e now t True s) (task_id t) = Some (next_timer s)"
    using arm_reminders [of t due d ?c] by (simp add: eq)
  show "\<exists>d. timers (scheduleReminder e now t True s) (next_timer s)
            = Some \<lparr>t_task = t, t_due = due, t_delay = d\<rparr>"
    using arm_timers [of t due d ?c] by (simp add: eq)
qed

lemma reschedule_clears:
  assumes "dueDate t = Some ds" and "ds \<noteq> []" and "\<not> completed t"
    and "Date_parse e ds = Some due" and "now < due"
    and "reminders s (task_id t) = Some k" and "k \<noteq> next_timer s"
  shows "timers (scheduleReminder e now t True s) k = None"
  using assms(5-7)
  unfolding scheduleReminder_eligible [OF assms(1-4)]
  by (simp add: Let_def arm_def cancelReminder_def clearTimeout_def)

text \<open>
  Claim C1, as the program has it. There is no generation counter: the callback of a
  timeout that runs calls \<open>sendReminder\<close> whatever \<open>reminders\<close> holds. What keeps a
  superseded timeout from delivering is \<open>clearTimeout\<close>. In a state where every armed
  timeout is the one recorded for its task, two calls of \<open>scheduleReminder\<close> with
  \<open>replace\<close> for the same task, each with a due date in the future, leave exactly one
  armed timeout for the task, the one of the second call; the timeout of the first
  call is disarmed and can no longer run; the remaining timeout delivers once, for the
  due date of the second call, and then none is left.
\<close>

theorem c1_reschedule_twice:
  assumes "tracked s"
    and "dueDate t1 = Some ds1" and "ds1 \<noteq> []" and "\<not> completed t1"
    and "Date_parse e ds1 = Some due1" and "now1 < due1"
    and "dueDate t2 = Some ds2" and "ds2 \<noteq> []" and "\<not> completed t2"
    and "Date_parse e ds2 = Some due2" and "now2 < due2"
    and "task_id t2 = task_id t1"
  shows "let s1 = scheduleReminder e now1 t1 True s;
             s2 = scheduleReminder e now2 t2 True s1
         in armed_for s1 (task_id t1) = {next_timer s}
          \<and> armed_for s2 (task_id t1) = {Suc (next_timer s)}
          \<and> reminders s2 (task_id t1) = Some (Suc (next_timer s))
          \<and> tracked s2
          \<and> timeout_fires (next_timer s) s2 = s2
          \<and> delivered (timeout_fires (Suc (next_timer s)) s2)
              = delivered s2 @ [(Suc (next_timer s), task_id t1, due2)]
          \<and> armed_for (timeout_fires (Suc (next_timer s)) s2) (task_id t1) = {}"
proof -
  let ?s1 = "scheduleReminder e now1 t1 True s"
  let ?s2 = "scheduleReminder e now2 t2 True ?s1"
  let ?n = "next_timer s"
  note r1 = reschedule_tracked [OF assms(1-6)]
  note r2 = reschedule_tracked [OF r1(1) assms(7-11)]
  have a2: "armed_for ?s2 (task_id t1) = {Suc ?n}"
    using r2(2) r1(3) assms(12) by simp
  have rem: "reminders ?s2 (task_id t1) = Some (Suc ?n)"
    using r2(4) r1(3) assms(12) by simp
  obtain d where tm: "timers ?s2 (Suc ?n) = Some \<lparr>t_task = t2, t_due = due2, t_delay = d\<rparr>"
    using r2(5) r1(3) by auto
  have old: "timers ?s2 ?n = None"
    using reschedule_clears [OF assms(7-11), of ?s1 ?n] r1(4) r1(3) assms(12) by simp
  have f0: "timeout_fires ?n ?s2 = ?s2"
    using old by (simp add: timeout_fires_def)
  have f1: "delivered (timeout_fires (Suc ?n) ?s2)
              = delivered ?s2 @ [(Suc ?n, task_id t1, due2)]"
    using tm assms(12) by (simp add: timeout_fires_def)
  have f2: "armed_for (timeout_fires (Suc ?n) ?s2) (task_id t1) = {}"
    using a2 tm by (auto simp: timeout_fires_def armed_for_def split: if_splits)
  show ?thesis
    unfolding Let_def using r1(2) a2 rem r2(1) f0 f1 f2 by simp
qed

text \<open>On the fresh server: the due date is set to 14:00 and, a second later, to 16:00.
  Timeout 1 is the only one armed, and it is the only one that delivers.\<close>

theorem c1_reschedule_twice_witness:
  "armed_for (scheduleReminder ex_env (ex_now + 1000)
               (ex_task\<lparr>dueDate := Some ''2024-01-15T16:00:00.000Z''\<rparr>) True
               (scheduleReminder ex_env ex_now ex_task True init_server)) ''t1'' = {1}
   \<and> delivered (timeout_fires 1 (timeout_fires 0
        (scheduleReminder ex_env (ex_now + 1000)
               (ex_task\<lparr>dueDate := Some ''2024-01-15T16:00:00.000Z''\<rparr>) True
               (scheduleReminder ex_env ex_now ex_task True init_server))))
      = [(1, ''t1'', 1705334400000)]"
proof -
  let ?t2 = "ex_task\<lparr>dueDate := Some ''2024-01-15T16:00:00.000Z''\<rparr>"
  have i: "tracked init_server"
    by (simp add: tracked_def init_server_def)
  have e1: "dueDate ex_task = Some ''2024-01-15T14:00:00.000Z''"
      "''2024-01-15T14:00:00.000Z'' \<noteq> []" "\<not> completed ex_task"
      "Date_parse ex_env ''2024-01-15T14:00:00.000Z'' = Some 1705327200000"
      "ex_now < 1705327200000"
    by (simp_all add: ex_task_def ex_env_def ex_now_def)
  have e2: "dueDate ?t2 = Some ''2024-01-15T16:00:00.000Z''"
      "''2024-01-15T16:00:00.000Z'' \<noteq> []" "\<not> completed ?t2"
      "Date_parse ex_env ''2024-01-15T16:00:00.000Z'' = Some 1705334400000"
      "ex_now + 1000 < 1705334400000" "task_id ?t2 = task_id ex_task"
    by (simp_all add: ex_task_def ex_env_def ex_now_def)
  have d: "delivered (scheduleReminder ex_env (ex_now + 1000) ?t2 True
               (scheduleReminder ex_env ex_now ex_task True init_server)) = []"
    by (simp add: ex_server_defs)
  have n: "next_timer init_server = 0" "task_id ex_task = ''t1''"
    by (simp_all add: init_server_def ex_task_def)
  show ?thesis
    using c1_reschedule_twice [OF i e1 e2] d n by (simp add: Let_def)
qed

text \<open>
  The claim as the specification states it fails on the run \<open>race_s1\<close> to \<open>race_s6\<close>: the
  \<open>finally\<close> block of the callback of timeout 0 deletes the entry that the first \<open>PUT\<close>
  recorded for timeout 1, so the second \<open>PUT\<close> finds nothing to cancel. After the two
  reschedules the timeouts 1 and 2 are both armed; timeout 1 is superseded (\<open>reminders\<close>
  holds 2), runs all the same and delivers a reminder for the old due date of 16:00:
  two reminders follow the two reschedules.
\<close>

theorem c1_stale_timer_delivers:
  "reminders race_s5 ''t1'' = Some 2
   \<and> map_option t_due (timers race_s5 1) = Some 1705334400000
   \<and> map_option t_due (timers race_s5 2) = Some 1705338000000
   \<and> delivered race_s5 = [(0, ''t1'', 1705327200000)]
   \<and> delivered race_s6
       = [(0, ''t1'', 1705327200000), (1, ''t1'', 1705334400000), (2, ''t1'', 1705338000000)]"
  unfolding race_s6_def race_s5_def race_s4_def race_s3_def race_s2_def race_s1_def
  by (simp add: handler_defs ex_server_defs timeout_fires_def callback_settles_def)

section \<open>The push fan-out\<close>

lemma push_loop_attempts:
  "push_attempts (push_loop send snap d) = push_attempts d @ snap"
  by (induction snap arbitrary: d) (simp_all add: Let_def)

lemma push_loop_registry:
  "pushSubscriptions (push_loop send snap d)
     = filter (\<lambda>s. \<forall>sub \<in> set snap. send sub \<or> sub_ref s \<noteq> sub_ref sub)
         (pushSubscriptions d)"
proof (induction snap arbitrary: d)
  case Nil
  then show ?case by simp
next
  case (Cons sub rest)
  show ?case
    by (simp add: Cons.IH Let_def)
qed

lemma filter_failing_distinct:
  assumes "distinct (map sub_ref reg)"
  shows "filter (\<lambda>s. \<forall>sub \<in> set reg. send sub \<or> sub_ref s \<noteq> sub_ref sub) reg
           = filter send reg"
proof (rule filter_cong [OF refl])
  fix s assume s: "s \<in> set reg"
  have "\<And>sub. sub \<in> set reg \<Longrightarrow> sub_ref s = sub_ref sub \<Longrightarrow> sub = s"
    using assms s by (auto simp: distinct_map inj_on_def)
  then show "(\<forall>sub \<in> set reg. send sub \<or> sub_ref s \<noteq> sub_ref sub) = send s"
    using s by auto
qed

text \<open>
  Claim C8. When the VAPID keys are configured and the registry holds distinct
  subscription objects, one call of \<open>sendReminder\<close> attempts a send to every
  subscription that was in the registry when the call began, in order, whether or not
  earlier sends failed; and the registry it leaves holds exactly the subscriptions
  whose send succeeded: each failing subscription is removed, no other is.
\<close>

theorem c8_fanout:
  assumes "vapid ch" and "distinct (map sub_ref (pushSubscriptions d))"
  shows "push_attempts (sendReminder ch t due d) = push_attempts d @ pushSubscriptions d
       \<and> pushSubscriptions (sendReminder ch t due d)
           = filter (\<lambda>sub. sendNotification ch sub t due) (pushSubscriptions d)"
proof (cases "pushSubscriptions d = []")
  case True
  then show ?thesis by (simp add: sendReminder_def Let_def split: option.split)
next
  case False
  then show ?thesis
    using assms filter_failing_distinct [OF assms(2), of "\<lambda>sub. sendNotification ch sub t due"]
    by (simp add: sendReminder_def Let_def push_loop_attempts push_loop_registry
             split: option.split)
qed

text \<open>The second of three subscriptions fails: all three are attempted, the first and
  the third stay.\<close>

theorem c8_fanout_witness:
  "push_attempts (sendReminder ex_channels ex_task 1705327200000 ex_delivery) = ex_subs
   \<and> pushSubscriptions (sendReminder ex_channels ex_task 1705327200000 ex_delivery)
       = [\<lparr>sub_ref = 0, endpoint = ''https://push.example/a'', sub_keys = ''ka''\<rparr>,
          \<lparr>sub_ref = 2, endpoint = ''https://push.example/c'', sub_keys = ''kc''\<rparr>]"
proof -
  have h: "vapid ex_channels" "distinct (map sub_ref (pushSubscriptions ex_delivery))"
    by (simp_all add: ex_channels_def ex_delivery_def ex_subs_def)
  show ?thesis
    using c8_fanout [OF h, of ex_task 1705327200000]
    by (simp add: ex_channels_def ex_delivery_def ex_subs_def)
qed

section \<open>The routes\<close>

lemma scheduleReminder_db [simp]: "db (scheduleReminder e now t replace s) = db s"
  by (simp add: scheduleReminder_def cancelReminder_def clearTimeout_def arm_def Let_def
        split: option.split)

lemma put_task_ok:
  assumes "put_task e now i body s = (Json_task t', s')" and "getTask i s = Some old"
  shows "\<exists>nextTitle nextDue.
           put_next e now body = Inr (nextTitle, nextDue)
           \<and> put_updates old body nextTitle nextDue = Inr t'
           \<and> db s' i = Some t'"
proof (cases "put_next e now body")
  case (Inl err)
  then show ?thesis using assms by (simp add: put_task_def)
next
  case (Inr p)
  obtain nextTitle nextDue where p: "p = (nextTitle, nextDue)" by (cases p)
  show ?thesis
  proof (cases "put_updates old body nextTitle nextDue")
    case (Inl err)
    then show ?thesis using assms Inr p by (simp add: put_task_def)
  next
    case U: (Inr u)
    show ?thesis
    proof (cases "updateTask i u s")
      case None
      then show ?thesis using assms Inr p U by (simp add: put_task_def)
    next
      case (Some s1)
      have ts: "t' = u \<and> s' = scheduleReminder e now u True s1"
        using assms Inr p U Some by (auto simp add: put_task_def)
      have "db s1 i = Some u"
        using Some by (simp add: updateTask_def split: if_splits) auto
      then have "db s' i = Some t'" using ts by simp
      then show ?thesis using Inr p U ts by simp
    qed
  qed
qed

text \<open>
  Claim C10, as the program has it. In the task that a successful \<open>PUT\<close> answers with
  (and stores): \<open>completed\<close> is the existing value when the body has no boolean
  \<open>completed\<close>; \<open>email\<close> is the existing value when the body has no \<open>email\<close>. When the
  body carries a non-empty \<open>input\<close>, no non-empty \<open>title\<close> and no \<open>dueDate\<close>, the title
  and the due date are both the ones parsed from the input, whatever the task held.
  Otherwise \<open>title\<close> is the existing value when the body has no \<open>title\<close>, and \<open>dueDate\<close>
  is the existing value when the body has no \<open>dueDate\<close>.
\<close>

theorem c10_put_retains:
  assumes "put_task e now i body s = (Json_task t', s')" and "getTask i s = Some old"
  shows "(b_completed body = None \<longrightarrow> completed t' = completed old)
       \<and> (b_email body = Absent \<longrightarrow> email t' = email old)
       \<and> (if truthy (b_input body) \<and> \<not> truthy (b_title body) \<and> b_dueDate body = Absent
          then \<exists>inp parsed. b_input body = Val inp \<and> parseInput e now inp = Inr parsed
                 \<and> title t' = trim (p_title parsed)
                 \<and> dueDate t' = p_dueDate parsed
          else (b_title body = Absent \<longrightarrow> title t' = title old)
             \<and> (b_dueDate body = Absent \<longrightarrow> dueDate t' = dueDate old))
       \<and> task_id t' = task_id old
       \<and> db s' i = Some t'"
proof -
  from put_task_ok [OF assms] obtain nextTitle nextDue where
    P: "put_next e now body = Inr (nextTitle, nextDue)"
    and U: "put_updates old body nextTitle nextDue = Inr t'"
    and d: "db s' i = Some t'"
    by blast
  obtain title1 where
    T: "(case nextTitle of Absent \<Rightarrow> Inr (title old) | Null \<Rightarrow> Inl TypeError
         | Val ttl \<Rightarrow> Inr (trim ttl)) = Inr title1"
    and t: "t' = old\<lparr>title := title1,
                  dueDate := (case nextDue of Absent \<Rightarrow> dueDate old | Null \<Rightarrow> None
                              | Val dd \<Rightarrow> Some dd),
                  completed := (case b_completed body of Some c \<Rightarrow> c
                                | None \<Rightarrow> completed old),
                  email := (case b_email body of Absent \<Rightarrow> email old | em \<Rightarrow> em)\<rparr>"
    using U by (auto simp: put_updates_def split: sum.splits)
  have c1: "b_completed body = None \<longrightarrow> completed t' = completed old"
    by (simp add: t)
  have c2: "b_email body = Absent \<longrightarrow> email t' = email old"
    by (simp add: t)
  have c3: "task_id t' = task_id old"
    by (simp add: t)
  have c4: "if truthy (b_input body) \<and> \<not> truthy (b_title body) \<and> b_dueDate body = Absent
          then \<exists>inp parsed. b_input body = Val inp \<and> parseInput e now inp = Inr parsed
                 \<and> title t' = trim (p_title parsed)
                 \<and> dueDate t' = p_dueDate parsed
          else (b_title body = Absent \<longrightarrow> title t' = title old)
             \<and> (b_dueDate body = Absent \<longrightarrow> dueDate t' = dueDate old)"
  proof (cases "truthy (b_input body) \<and> \<not> truthy (b_title body) \<and> b_dueDate body = Absent")
    case True
    then obtain inp where inp: "b_input body = Val inp"
      by (auto simp: truthy_def split: field.splits)
    obtain parsed where parsed: "parseInput e now inp = Inr parsed"
      and nt: "nextTitle = Val (p_title parsed)"
      and nd: "nextDue = (case p_dueDate parsed of Some dd \<Rightarrow> Val dd | None \<Rightarrow> Null)"
      using P True inp by (auto simp: put_next_def split: sum.splits)
    have "title t' = trim (p_title parsed)" using T nt by (simp add: t)
    moreover have "dueDate t' = p_dueDate parsed"
      using nd by (simp add: t split: option.split)
    ultimately show ?thesis using True inp parsed by simp
  next
    case False
    then have "nextTitle = b_title body" "nextDue = b_dueDate body"
      using P by (simp_all only: put_next_def if_False sum.inject prod.inject)
    then show ?thesis using False T by (auto simp: t)
  qed
  show ?thesis using c1 c2 c3 c4 d by blast
qed

text \<open>A body with a new due date and \<open>completed\<close>: title and address stay.\<close>

theorem c10_put_retains_witness:
  "fst (put_task ex_env ex_now ''t1''
         ((body_due ''2024-01-15T16:00:00.000Z'')\<lparr>b_completed := Some True\<rparr>) ex_db)
     = Json_task (ex_task\<lparr>dueDate := Some ''2024-01-15T16:00:00.000Z'', completed := True\<rparr>)"
proof -
  let ?b = "(body_due ''2024-01-15T16:00:00.000Z'')\<lparr>b_completed := Some True\<rparr>"
  have g: "getTask ''t1'' ex_db = Some ex_task"
    by (simp add: ex_db_def handler_defs ex_server_defs)
  obtain t' s' where r: "put_task ex_env ex_now ''t1'' ?b ex_db = (Json_task t', s')"
    by (simp add: ex_db_def handler_defs ex_server_defs)
  have "title t' = title ex_task \<and> email t' = email ex_task \<and> task_id t' = task_id ex_task"
    using c10_put_retains [OF r g] by (simp add: body_due_def truthy_def)
  moreover have "dueDate t' = Some ''2024-01-15T16:00:00.000Z'' \<and> completed t' = True"
    using r by (auto simp add: ex_db_def handler_defs ex_server_defs)
  ultimately have
    "t' = ex_task\<lparr>dueDate := Some ''2024-01-15T16:00:00.000Z'', completed := True\<rparr>"
    by (cases t') (simp add: ex_task_def)
  then show ?thesis using r by simp
qed

lemmas string_defs =
  trim_def isSpace_def toLowerCase_def toLowerChar_def startsWith_def inTime_at_def
  inTime_replace_def time_units_def isDigit_def parseInt_def digit_val_def

lemmas date_defs =
  iso_string_def iso_year_def pad2_def pad3_def pad4_def pad6_def digit_char_def
  YearFromTime_def YearFromDay_def Day_def msPerDay_def DayFromYear_def MonthFromTime_def
  DateFromTime_def DayWithinYear_def InLeapYear_def DaysInYear_def month_start_def
  HourFromTime_def MinFromTime_def SecFromTime_def msFromTime_def msPerHour_def
  msPerMinute_def msPerSecond_def TimeClip_def toISOString_def MakeDay_def MakeTime_def
  MakeDate_def LocalTime_def UTC_def getFullYear_def getMonth_def getDate_def
  Date_local_def setHours_def

lemmas parse_defs =
  parseInput_def parseInputLocal_def parseInputLocal_try_def heuristics_def ex_env_def
  ex_now_def Let_def

text \<open>
  The claim as stated fails: a body that carries only the free text "Buy milk" has
  neither \<open>title\<close> nor \<open>dueDate\<close>, and the task answered has the title "Buy milk" and
  no due date, where the stored task had the title "Call mom" and was due at 14:00.
\<close>

theorem c10_input_replaces_absent_fields:
  "b_title (body_input ''Buy milk'') = Absent
   \<and> b_dueDate (body_input ''Buy milk'') = Absent
   \<and> getTask ''t1'' ex_db = Some ex_task
   \<and> fst (put_task ex_env ex_now ''t1'' (body_input ''Buy milk'') ex_db)
       = Json_task (ex_task\<lparr>title := ''Buy milk'', dueDate := None\<rparr>)"
  by (simp add: body_input_def ex_db_def handler_defs ex_server_defs parse_defs string_defs)

text \<open>
  Claim C9. A \<open>POST\<close> whose body has no (non-empty) title and a free text from which
  the extraction leaves an empty title is answered with status 400 and the error
  "title or input is required"; the state of the server is unchanged: no task is
  stored and no timeout is armed.
\<close>

theorem c9_empty_title_rejected:
  assumes "\<not> truthy (b_title body)" and "b_input body = Val inp" and "inp \<noteq> []"
    and "parseInput e now inp = Inr parsed" and "p_title parsed = []"
  shows "post_tasks e now new_id body s = (Json_error 400 ''title or input is required'', s)"
  using assms by (simp add: post_tasks_def truthy_def)

lemma parse_in_5_min:
  "parseInput ex_env ex_now ''in 5 min''
     = Inr \<lparr>p_title = [], p_dueDate = Some ''2024-01-15T12:05:00.000Z''\<rparr>"
  by (simp add: parse_defs string_defs date_defs)

text \<open>The text "in 5 min" is all phrase: the request is refused.\<close>

theorem c9_empty_title_rejected_witness:
  "post_tasks ex_env ex_now ''t2'' (body_input ''in 5 min'') init_server
     = (Json_error 400 ''title or input is required'', init_server)"
  using c9_empty_title_rejected
          [of "body_input ''in 5 min''" "''in 5 min''" ex_env ex_now _ "''t2''" init_server]
        parse_in_5_min
  by (simp add: body_input_def truthy_def)

section \<open>The extraction\<close>








section \<open>The calendar\<close>

text \<open>\<open>YearFromDay\<close> meets the specification of \<open>YearFromTime\<close>: the year it returns
  begins on or before the day, the next year after it.\<close>

lemma div_bounds:
  fixes a :: int
  shows "4 * (a div 4) \<le> a \<and> a < 4 * (a div 4) + 4"
    and "100 * (a div 100) \<le> a \<and> a < 100 * (a div 100) + 100"
    and "400 * (a div 400) \<le> a \<and> a < 400 * (a div 400) + 400"
    and "146097 * (a div 146097) \<le> a \<and> a < 146097 * (a div 146097) + 146097"
  by presburger+

lemma year_estimate_prev:
  "DayFromYear (1970 + (400 * d) div 146097 - 1) \<le> d"
proof -
  define k where "k = (400 * d) div 146097"
  have "146097 * k \<le> 400 * d"
    using div_bounds(4) [of "400 * d"] by (simp add: k_def)
  moreover have "4 * (k div 4) \<le> k" using div_bounds(1) [of k] by simp
  moreover have "k + 68 < 100 * ((k + 68) div 100) + 100"
    using div_bounds(2) [of "k + 68"] by simp
  moreover have "400 * ((k + 368) div 400) \<le> k + 368"
    using div_bounds(3) [of "k + 368"] by simp
  ultimately show ?thesis
    unfolding DayFromYear_def k_def [symmetric]
    by (simp add: algebra_simps)
qed

lemma year_estimate_next:
  "d < DayFromYear (1970 + (400 * d) div 146097 + 2)"
proof -
  define k where "k = (400 * d) div 146097"
  have "400 * d < 146097 * k + 146097"
    using div_bounds(4) [of "400 * d"] by (simp add: k_def)
  moreover have "k + 3 < 4 * ((k + 3) div 4) + 4" using div_bounds(1) [of "k + 3"] by simp
  moreover have "100 * ((k + 71) div 100) \<le> k + 71"
    using div_bounds(2) [of "k + 71"] by simp
  moreover have "k + 371 < 400 * ((k + 371) div 400) + 400"
    using div_bounds(3) [of "k + 371"] by simp
  ultimately show ?thesis
    unfolding DayFromYear_def k_def [symmetric]
    by (simp add: algebra_simps)
qed

lemma YearFromDay_lower: "DayFromYear (YearFromDay d) \<le> d"
  using year_estimate_prev [of d] by (simp add: YearFromDay_def Let_def)

lemma YearFromDay_upper: "d < DayFromYear (YearFromDay d + 1)"
  using year_estimate_next [of d] by (simp add: YearFromDay_def Let_def add.commute)


lemma YearFromDay_ge:
  assumes "0 \<le> d"
  shows "1970 \<le> YearFromDay d"
proof -
  let ?y = "1970 + (400 * d) div 146097"
  have y: "1970 \<le> ?y" using assms by (simp add: pos_imp_zdiv_nonneg_iff)
  show ?thesis
  proof (cases "?y = 1970")
    case True
    then show ?thesis using assms by (simp add: YearFromDay_def Let_def DayFromYear_def)
  next
    case False
    then have "1971 \<le> ?y" using y by linarith
    then show ?thesis by (simp add: YearFromDay_def Let_def)
  qed
qed

lemma YearFromTime_ge: "0 \<le> t \<Longrightarrow> 1970 \<le> YearFromTime t"
  unfolding YearFromTime_def Day_def msPerDay_def
  by (rule YearFromDay_ge) (simp add: pos_imp_zdiv_nonneg_iff)

lemma MonthFromTime_range: "0 \<le> MonthFromTime t \<and> MonthFromTime t \<le> 11"
  by (simp add: MonthFromTime_def Let_def)

lemma MakeDay_fields:
  "MakeDay (YearFromTime t) (MonthFromTime t) (DateFromTime t + k) = Day t + k"
proof -
  have m: "MonthFromTime t div 12 = 0" "MonthFromTime t mod 12 = MonthFromTime t"
    using MonthFromTime_range [of t] by simp_all
  show ?thesis
    by (simp add: MakeDay_def Let_def m DateFromTime_def DayWithinYear_def InLeapYear_def)
qed

lemma Date_local_fields:
  assumes "0 \<le> LocalTime e now"
  shows "Date_local e (getFullYear e now) (getMonth e now) (getDate e now + k) h 0 0
           = TimeClip (local_at e (Day (LocalTime e now) + k) h)"
proof -
  have "1970 \<le> getFullYear e now"
    using YearFromTime_ge [OF assms] by (simp add: getFullYear_def)
  then have y: "(if 0 \<le> getFullYear e now \<and> getFullYear e now \<le> 99
                 then 1900 + getFullYear e now else getFullYear e now) = getFullYear e now"
    by simp
  have "MakeDay (getFullYear e now) (getMonth e now) (getDate e now + k)
          = Day (LocalTime e now) + k"
    using MakeDay_fields [of "LocalTime e now" k]
    by (simp add: getFullYear_def getMonth_def getDate_def)
  then show ?thesis
    unfolding Date_local_def Let_def local_at_def y by simp
qed

lemma local_at_reads:
  assumes "tza_utc e (local_at e day h) = tza_local e (MakeDate day (MakeTime h 0 0 0))"
    and "0 \<le> h" and "h < 24"
  shows "Day (LocalTime e (local_at e day h)) = day"
    and "TimeWithinDay (LocalTime e (local_at e day h)) = h * msPerHour"
proof -
  have l: "LocalTime e (local_at e day h) = day * msPerDay + h * msPerHour"
    using assms(1) by (simp add: LocalTime_def local_at_def UTC_def MakeDate_def MakeTime_def)
  have b: "0 \<le> h * 3600000" "h * 3600000 < 86400000" using assms(2,3) by simp_all
  show "Day (LocalTime e (local_at e day h)) = day"
    using b by (simp add: l Day_def msPerDay_def msPerHour_def div_pos_pos_trivial)
  show "TimeWithinDay (LocalTime e (local_at e day h)) = h * msPerHour"
    using b by (simp add: l TimeWithinDay_def msPerDay_def msPerHour_def)
qed


lemma setHours_valid:
  assumes "\<bar>t\<bar> \<le> 8640000000000000"
  shows "setHours e (TimeClip t) h 0 0 0 = TimeClip (local_at e (Day (LocalTime e t)) h)"
  using assms by (simp add: setHours_def TimeClip_def local_at_def)

lemma toISOString_valid:
  "\<bar>t\<bar> \<le> 8640000000000000 \<Longrightarrow> toISOString (TimeClip t) = Inr (iso_string t)"
  by (simp add: toISOString_def TimeClip_def)

lemma heuristics_tomorrow:
  assumes "inTime_search False (toLowerCase (p_title out)) = None"
    and "str_includes (toLowerCase (p_title out)) ''tomorrow''"
    and "0 \<le> LocalTime e now"
    and "\<bar>local_at e (Day (LocalTime e now) + 1) 9\<bar> \<le> 8640000000000000"
  shows "heuristics e now out
           = Inr (out\<lparr>p_dueDate := Some (iso_string (local_at e (Day (LocalTime e now) + 1) 9))\<rparr>)"
  using assms(1,2)
  by (simp add: heuristics_def Let_def Date_local_fields [OF assms(3)]
        toISOString_valid [OF assms(4)])

lemma heuristics_today:
  assumes "inTime_search False (toLowerCase (p_title out)) = None"
    and "\<not> str_includes (toLowerCase (p_title out)) ''tomorrow''"
    and "str_includes (toLowerCase (p_title out)) ''today''"
    and "0 \<le> LocalTime e now"
    and "\<bar>local_at e (Day (LocalTime e now)) 17\<bar> \<le> 8640000000000000"
  shows "heuristics e now out
           = Inr (out\<lparr>p_dueDate := Some (iso_string (local_at e (Day (LocalTime e now)) 17))\<rparr>)"
  using assms(1,2,3) Date_local_fields [OF assms(4), of 0 17]
  by (simp add: heuristics_def Let_def toISOString_valid [OF assms(5)])

lemma heuristics_next_week:
  assumes "inTime_search False (toLowerCase (p_title out)) = None"
    and "\<not> str_includes (toLowerCase (p_title out)) ''tomorrow''"
    and "\<not> str_includes (toLowerCase (p_title out)) ''today''"
    and "str_includes (toLowerCase (p_title out)) ''next week''"
    and "\<bar>now + 7 * msPerDay\<bar> \<le> 8640000000000000"
    and "\<bar>local_at e (Day (LocalTime e (now + 7 * msPerDay))) 9\<bar> \<le> 8640000000000000"
  shows "heuristics e now out
           = Inr (out\<lparr>p_dueDate :=
                 Some (iso_string (local_at e (Day (LocalTime e (now + 7 * msPerDay))) 9))\<rparr>)"
proof -
  have w: "now + 604800000 = now + 7 * msPerDay"
    by (simp add: msPerDay_def)
  have "toISOString (setHours e (TimeClip (now + 604800000)) 9 0 0 0)
          = Inr (iso_string (local_at e (Day (LocalTime e (now + 7 * msPerDay))) 9))"
    unfolding w setHours_valid [OF assms(5)] by (rule toISOString_valid [OF assms(6)])
  then show ?thesis
    using assms(1-4) by (simp add: heuristics_def Let_def)
qed

lemma parseInputLocal_heuristics:
  assumes "chrono_parse e (trim input) now = Inr []"
    and "heuristics e now \<lparr>p_title = trim input, p_dueDate = None\<rparr> = Inr r"
  shows "parseInputLocal e now input = Inr r"
  using assms by (simp add: parseInputLocal_def parseInputLocal_try_def Let_def)

lemma heuristic_defaults:
  assumes "chrono_parse e (trim input) now = Inr []"
    and "inTime_search False (toLowerCase (trim input)) = None"
    and "0 \<le> LocalTime e now"
  shows "(str_includes (toLowerCase (trim input)) ''tomorrow''
          \<and> \<bar>local_at e (Day (LocalTime e now) + 1) 9\<bar> \<le> 8640000000000000
        \<longrightarrow> parseInputLocal e now input
              = Inr \<lparr>p_title = trim input,
                     p_dueDate = Some (iso_string (local_at e (Day (LocalTime e now) + 1) 9))\<rparr>)
       \<and> (\<not> str_includes (toLowerCase (trim input)) ''tomorrow''
          \<and> str_includes (toLowerCase (trim input)) ''today''
          \<and> \<bar>local_at e (Day (LocalTime e now)) 17\<bar> \<le> 8640000000000000
        \<longrightarrow> parseInputLocal e now input
              = Inr \<lparr>p_title = trim input,
                     p_dueDate = Some (iso_string (local_at e (Day (LocalTime e now)) 17))\<rparr>)
       \<and> (\<not> str_includes (toLowerCase (trim input)) ''tomorrow''
          \<and> \<not> str_includes (toLowerCase (trim input)) ''today''
          \<and> str_includes (toLowerCase (trim input)) ''next week''
          \<and> \<bar>now + 7 * msPerDay\<bar> \<le> 8640000000000000
          \<and> \<bar>local_at e (Day (LocalTime e (now + 7 * msPerDay))) 9\<bar> \<le> 8640000000000000
        \<longrightarrow> parseInputLocal e now input
              = Inr \<lparr>p_title = trim input,
                     p_dueDate = Some (iso_string
                       (local_at e (Day (LocalTime e (now + 7 * msPerDay))) 9))\<rparr>)"
proof -
  let ?out = "\<lparr>p_title = trim input, p_dueDate = None\<rparr>"
  have t: "inTime_search False (toLowerCase (p_title ?out)) = None"
    using assms(2) by simp
  have a: "str_includes (toLowerCase (trim input)) ''tomorrow''
          \<and> \<bar>local_at e (Day (LocalTime e now) + 1) 9\<bar> \<le> 8640000000000000
        \<longrightarrow> parseInputLocal e now input
              = Inr \<lparr>p_title = trim input,
                     p_dueDate = Some (iso_string (local_at e (Day (LocalTime e now) + 1) 9))\<rparr>"
    using parseInputLocal_heuristics [OF assms(1)] heuristics_tomorrow [OF t _ assms(3)]
    by simp
  have b: "\<not> str_includes (toLowerCase (trim input)) ''tomorrow''
          \<and> str_includes (toLowerCase (trim input)) ''today''
          \<and> \<bar>local_at e (Day (LocalTime e now)) 17\<bar> \<le> 8640000000000000
        \<longrightarrow> parseInputLocal e now input
              = Inr \<lparr>p_title = trim input,
                     p_dueDate = Some (iso_string (local_at e (Day (LocalTime e now)) 17))\<rparr>"
    using parseInputLocal_heuristics [OF assms(1)] heuristics_today [OF t _ _ assms(3)]
    by simp
  have c: "\<not> str_includes (toLowerCase (trim input)) ''tomorrow''
          \<and> \<not> str_includes (toLowerCase (trim input)) ''today''
          \<and> str_includes (toLowerCase (trim input)) ''next week''
          \<and> \<bar>now + 7 * msPerDay\<bar> \<le> 8640000000000000
          \<and> \<bar>local_at e (Day (LocalTime e (now + 7 * msPerDay))) 9\<bar> \<le> 8640000000000000
        \<longrightarrow> parseInputLocal e now input
              = Inr \<lparr>p_title = trim input,
                     p_dueDate = Some (iso_string
                       (local_at e (Day (LocalTime e (now + 7 * msPerDay))) 9))\<rparr>"
    using parseInputLocal_heuristics [OF assms(1)] heuristics_next_week [OF t]
    by simp
  show ?thesis using a b c by blast
qed

lemma parseInputLocal_grammar:
  assumes "chrono_parse e (trim input) now = Inr (first # rest)"
    and "c_date first = Some dt" and "zonedTimeToUtc e dt = Inr (Some u)"
  shows "parseInputLocal e now input
           = Inr \<lparr>p_title = (if c_text first = [] then trim input
                              else trim (collapse_ws
                                     (trim (replace_first (trim input) (c_text first))))),
                  p_dueDate = Some (iso_string u)\<rparr>"
  using assms
  by (simp add: parseInputLocal_def parseInputLocal_try_def toISOString_def Let_def)

text \<open>
  Claim C5, as the program has it. The defaults of 09:00 and 17:00 belong to the
  secondary heuristics, which run only when the grammar finds nothing in the text.
  \<^item> When the grammar finds a date, the due date is the date of its first result,
    passed through \<open>zonedTimeToUtc\<close>, whatever its time of day, and the matched text
    is removed from the title.
  \<^item> When the grammar finds nothing and the expression for "in N hours" does not match:
    if the text contains "tomorrow", the due date is the instant of 09:00 local time on
    the local day after that of \<open>now\<close>; if it contains "today" and not "tomorrow", the
    instant of 17:00 local time on the local day of \<open>now\<close>; if it contains "next week"
    and neither of the two, the instant of 09:00 local time on the local day of \<open>now\<close>
    plus seven days. The title is the trimmed text.
  Local time is that of the zone of the server process, not of the configured zone;
  the local clock is not before 1970 and each instant lies in the range of \<open>Date\<close>.
  The last conjunct says what \<open>local_at\<close> means: where the two offsets of the zone
  agree, the local reading of \<open>local_at e day h\<close> is day \<open>day\<close>, \<open>h\<close> o'clock.
\<close>

theorem c5_default_times:
  assumes "0 \<le> LocalTime e now"
  shows "(\<forall>first rest dt u.
            chrono_parse e (trim input) now = Inr (first # rest)
            \<and> c_date first = Some dt \<and> zonedTimeToUtc e dt = Inr (Some u)
          \<longrightarrow> parseInputLocal e now input
                = Inr \<lparr>p_title = (if c_text first = [] then trim input
                                   else trim (collapse_ws
                                          (trim (replace_first (trim input) (c_text first))))),
                       p_dueDate = Some (iso_string u)\<rparr>)
       \<and> (chrono_parse e (trim input) now = Inr []
          \<and> inTime_search False (toLowerCase (trim input)) = None
          \<and> str_includes (toLowerCase (trim input)) ''tomorrow''
          \<and> \<bar>local_at e (Day (LocalTime e now) + 1) 9\<bar> \<le> 8640000000000000
        \<longrightarrow> parseInputLocal e now input
              = Inr \<lparr>p_title = trim input,
                     p_dueDate = Some (iso_string (local_at e (Day (LocalTime e now) + 1) 9))\<rparr>)
       \<and> (chrono_parse e (trim input) now = Inr []
          \<and> inTime_search False (toLowerCase (trim input)) = None
          \<and> \<not> str_includes (toLowerCase (trim input)) ''tomorrow''
          \<and> str_includes (toLowerCase (trim input)) ''today''
          \<and> \<bar>local_at e (Day (LocalTime e now)) 17\<bar> \<le> 8640000000000000
        \<longrightarrow> parseInputLocal e now input
              = Inr \<lparr>p_title = trim input,
                     p_dueDate = Some (iso_string (local_at e (Day (LocalTime e now)) 17))\<rparr>)
       \<and> (chrono_parse e (trim input) now = Inr []
          \<and> inTime_search False (toLowerCase (trim input)) = None
          \<and> \<not> str_includes (toLowerCase (trim input)) ''tomorrow''
          \<and> \<not> str_includes (toLowerCase (trim input)) ''today''
          \<and> str_includes (toLowerCase (trim input)) ''next week''
          \<and> \<bar>now + 7 * msPerDay\<bar> \<le> 8640000000000000
          \<and> \<bar>local_at e (Day (LocalTime e (now + 7 * msPerDay))) 9\<bar> \<le> 8640000000000000
        \<longrightarrow> parseInputLocal e now input
              = Inr \<lparr>p_title = trim input,
                     p_dueDate = Some (iso_string
                       (local_at e (Day (LocalTime e (now + 7 * msPerDay))) 9))\<rparr>)
       \<and> (\<forall>day h. tza_utc e (local_at e day h) = tza_local e (MakeDate day (MakeTime h 0 0 0))
                  \<and> 0 \<le> h \<and> h < 24
            \<longrightarrow> Day (LocalTime e (local_at e day h)) = day
              \<and> TimeWithinDay (LocalTime e (local_at e day h)) = h * msPerHour)"
proof -
  have g: "\<forall>first rest dt u.
            chrono_parse e (trim input) now = Inr (first # rest)
            \<and> c_date first = Some dt \<and> zonedTimeToUtc e dt = Inr (Some u)
          \<longrightarrow> parseInputLocal e now input
                = Inr \<lparr>p_title = (if c_text first = [] then trim input
                                   else trim (collapse_ws
                                          (trim (replace_first (trim input) (c_text first))))),
                       p_dueDate = Some (iso_string u)\<rparr>"
    using parseInputLocal_grammar by blast
  have h: "chrono_parse e (trim input) now = Inr []
      \<and> inTime_search False (toLowerCase (trim input)) = None
     \<longrightarrow> (str_includes (toLowerCase (trim input)) ''tomorrow''
          \<and> \<bar>local_at e (Day (LocalTime e now) + 1) 9\<bar> \<le> 8640000000000000
        \<longrightarrow> parseInputLocal e now input
              = Inr \<lparr>p_title = trim input,
                     p_dueDate = Some (iso_string (local_at e (Day (LocalTime e now) + 1) 9))\<rparr>)
       \<and> (\<not> str_includes (toLowerCase (trim input)) ''tomorrow''
          \<and> str_includes (toLowerCase (trim input)) ''today''
          \<and> \<bar>local_at e (Day (LocalTime e now)) 17\<bar> \<le> 8640000000000000
        \<longrightarrow> parseInputLocal e now input
              = Inr \<lparr>p_title = trim input,
                     p_dueDate = Some (iso_string (local_at e (Day (LocalTime e now)) 17))\<rparr>)
       \<and> (\<not> str_includes (toLowerCase (trim input)) ''tomorrow''
          \<and> \<not> str_includes (toLowerCase (trim input)) ''today''
          \<and> str_includes (toLowerCase (trim input)) ''next week''
          \<and> \<bar>now + 7 * msPerDay\<bar> \<le> 8640000000000000
          \<and> \<bar>local_at e (Day (LocalTime e (now + 7 * msPerDay))) 9\<bar> \<le> 8640000000000000
        \<longrightarrow> parseInputLocal e now input
              = Inr \<lparr>p_title = trim input,
                     p_dueDate = Some (iso_string
                       (local_at e (Day (LocalTime e (now + 7 * msPerDay))) 9))\<rparr>)"
    using heuristic_defaults [OF _ _ assms, of input] by blast
  show ?thesis
    using g h local_at_reads by blast
qed

text \<open>At noon UTC of 15 January 2024, five hours east of UTC. The grammar finds "in 2
  hours": the due date is 14:00 UTC. The grammar finds nothing in the three other
  texts, where the key word is part of a longer word: 09:00 of the 16th is 04:00 UTC,
  17:00 of the 15th is 12:00 UTC, 09:00 of the 22nd is 04:00 UTC.\<close>

theorem c5_default_times_witness:
  "parseInputLocal ex_env_grammar ex_now ''Call mom in 2 hours''
     = Inr \<lparr>p_title = ''Call mom'', p_dueDate = Some ''2024-01-15T14:00:00.000Z''\<rparr>
   \<and> parseInputLocal ex_env ex_now ''Read tomorrows agenda''
     = Inr \<lparr>p_title = ''Read tomorrows agenda'',
            p_dueDate = Some ''2024-01-16T04:00:00.000Z''\<rparr>
   \<and> parseInputLocal ex_env ex_now ''Print todays menu''
     = Inr \<lparr>p_title = ''Print todays menu'', p_dueDate = Some ''2024-01-15T12:00:00.000Z''\<rparr>
   \<and> parseInputLocal ex_env ex_now ''Draft next weekly plan''
     = Inr \<lparr>p_title = ''Draft next weekly plan'',
            p_dueDate = Some ''2024-01-22T04:00:00.000Z''\<rparr>
   \<and> Day (LocalTime ex_env (local_at ex_env 19738 9)) = 19738
   \<and> TimeWithinDay (LocalTime ex_env (local_at ex_env 19738 9)) = 9 * msPerHour"
proof -
  have l: "0 \<le> LocalTime ex_env ex_now" "0 \<le> LocalTime ex_env_grammar ex_now"
    by (simp_all add: ex_env_grammar_def ex_env_def ex_now_def LocalTime_def)
  note g = c5_default_times [OF l(2), of "''Call mom in 2 hours''", THEN conjunct1, rule_format,
      of "\<lparr>c_text = ''in 2 hours'', c_date = Some (ex_now + 2 * msPerHour)\<rparr>" "[]"
         "ex_now + 2 * msPerHour" "ex_now + 2 * msPerHour"]
  have 0: "parseInputLocal ex_env_grammar ex_now ''Call mom in 2 hours''
     = Inr \<lparr>p_title = ''Call mom'', p_dueDate = Some ''2024-01-15T14:00:00.000Z''\<rparr>"
    using g by (simp add: string_defs date_defs ex_env_grammar_def ex_env_def ex_now_def)
  note t = c5_default_times [OF l(1), of "''Read tomorrows agenda''",
      THEN conjunct2, THEN conjunct1]
  have 1: "parseInputLocal ex_env ex_now ''Read tomorrows agenda''
     = Inr \<lparr>p_title = ''Read tomorrows agenda'',
            p_dueDate = Some ''2024-01-16T04:00:00.000Z''\<rparr>"
    using t by (simp add: string_defs date_defs local_at_def ex_env_def ex_now_def)
  note d = c5_default_times [OF l(1), of "''Print todays menu''",
      THEN conjunct2, THEN conjunct2, THEN conjunct1]
  have 2: "parseInputLocal ex_env ex_now ''Print todays menu''
     = Inr \<lparr>p_title = ''Print todays menu'', p_dueDate = Some ''2024-01-15T12:00:00.000Z''\<rparr>"
    using d by (simp add: string_defs date_defs local_at_def ex_env_def ex_now_def)
  note n = c5_default_times [OF l(1), of "''Draft next weekly plan''",
      THEN conjunct2, THEN conjunct2, THEN conjunct2, THEN conjunct1]
  have 3: "parseInputLocal ex_env ex_now ''Draft next weekly plan''
     = Inr \<lparr>p_title = ''Draft next weekly plan'',
            p_dueDate = Some ''2024-01-22T04:00:00.000Z''\<rparr>"
    using n by (simp add: string_defs date_defs local_at_def ex_env_def ex_now_def)
  note r = c5_default_times [OF l(1), of "[]", THEN conjunct2, THEN conjunct2, THEN conjunct2,
      THEN conjunct2, rule_format, of 19738 9]
  have 4: "Day (LocalTime ex_env (local_at ex_env 19738 9)) = 19738
   \<and> TimeWithinDay (LocalTime ex_env (local_at ex_env 19738 9)) = 9 * msPerHour"
    using r by (simp add: ex_env_def local_at_def UTC_def)
  show ?thesis using 0 1 2 3 4 by simp
qed

text \<open>
  The claim as stated fails on the text "Pay rent tomorrow", in which the grammar
  finds the word "tomorrow": at noon UTC (17:00 local time) of 15 January the due date
  is noon UTC of the 16th, 17:00 local time, the time of day of the request, and the
  title is "Pay rent". 09:00 local time of the 16th is 04:00 UTC.
\<close>

theorem c5_grammar_keeps_time_of_day:
  "parseInputLocal ex_env_grammar ex_now ''Pay rent tomorrow''
     = Inr \<lparr>p_title = ''Pay rent'', p_dueDate = Some ''2024-01-16T12:00:00.000Z''\<rparr>
   \<and> iso_string (local_at ex_env_grammar (Day (LocalTime ex_env_grammar ex_now) + 1) 9)
     = ''2024-01-16T04:00:00.000Z''"
  by (simp add: parse_defs string_defs date_defs local_at_def ex_env_grammar_def)

text \<open>
  Claim C3, on texts that reach the expression. In "Call mom in 2 hours" chrono-node
  finds the phrase, and the grammar branch removes it whole. Where the unit is followed
  by a letter, chrono-node finds nothing and the expression decides. The due date is
  then two hours (thirty minutes) after \<open>now\<close>, as the claim says. But the expression
  tries the alternative \<open>hour\<close> before \<open>hours\<close> (and \<open>minute\<close> before \<open>minutes\<close>), so its
  match is "in 2 hour": of the phrase "in 2 hours" the plural "s" stays in the title.
\<close>

theorem c3_plural_unit_leaves_s:
  "parseInputLocal ex_env ex_now ''Call mom in 2 hourss''
     = Inr \<lparr>p_title = ''Call mom ss'', p_dueDate = Some ''2024-01-15T14:00:00.000Z''\<rparr>
   \<and> parseInputLocal ex_env ex_now ''Stretch in 30 minutesish''
     = Inr \<lparr>p_title = ''Stretch sish'', p_dueDate = Some ''2024-01-15T12:30:00.000Z''\<rparr>
   \<and> map_option (m_text \<circ> snd) (inTime_search False ''call mom in 2 hourss'')
     = Some ''in 2 hour''"
  by (simp add: parse_defs string_defs date_defs)

text \<open>
  Claim C4, on texts that reach the heuristics: chrono-node finds nothing in them,
  since the key word is part of a longer word. The branches for "tomorrow", "today"
  and "next week" set the due date and leave the title as it is; only the branch for
  "in N minutes" removes what it matched.
\<close>

theorem c4_heuristic_phrase_not_stripped:
  "parseInputLocal ex_env ex_now ''Finish tomorrows report''
     = Inr \<lparr>p_title = ''Finish tomorrows report'',
            p_dueDate = Some ''2024-01-16T04:00:00.000Z''\<rparr>
   \<and> parseInputLocal ex_env ex_now ''Send todays numbers''
     = Inr \<lparr>p_title = ''Send todays numbers'',
            p_dueDate = Some ''2024-01-15T12:00:00.000Z''\<rparr>
   \<and> parseInputLocal ex_env ex_now ''Prepare next weekly sync''
     = Inr \<lparr>p_title = ''Prepare next weekly sync'',
            p_dueDate = Some ''2024-01-22T04:00:00.000Z''\<rparr>
   \<and> parseInputLocal ex_env ex_now ''Take vitamin 5 minerals''
     = Inr \<lparr>p_title = ''Take vitamerals'', p_dueDate = Some ''2024-01-15T12:05:00.000Z''\<rparr>"
  by (simp add: parse_defs string_defs date_defs)

end
